theory Spec2Isabelle
  imports Complex_Main "HOL-Library.Log_Nat"
begin

section \<open>Joystick-driven model controller (index.py)\<close>

text \<open>
  The development embeds the two functions of \<^verbatim>\<open>index.py\<close> that carry the control
  logic: \<^verbatim>\<open>ModelController.update_from_joystick\<close> (the state transition) and
  \<^verbatim>\<open>read_joystick_data\<close> (the decoder of one serial line).

  Numbers. Python's \<^verbatim>\<open>int\<close> is unbounded and is modelled by \<open>int\<close>. Python's
  \<^verbatim>\<open>float\<close> is binary64. The state transition is given twice: with exact
  arithmetic on \<open>real\<close> (\<open>update_from_joystick\<close>), and with every operation rounded
  to binary64 (\<open>update_from_joystick_fl b64\<close>); the two are the same text, and the
  first is the second with the identity for the rounding. Statements about
  \<open>update_from_joystick\<close> are statements of exact arithmetic. Overflow to infinity,
  NaN and subnormal numbers are outside both models.
\<close>

subsection \<open>Configuration constants\<close>

definition JOYSTICK_CENTER :: int where
  "JOYSTICK_CENTER = 512"

definition JOYSTICK_MAX :: real where
  "JOYSTICK_MAX = 512.0"

definition MOVEMENT_SPEED :: real where
  "MOVEMENT_SPEED = 0.1"

definition ROTATION_SPEED :: real where
  "ROTATION_SPEED = 2.0"

definition JUMP_HEIGHT :: real where
  "JUMP_HEIGHT = 0.2"

subsection \<open>The controller state\<close>

text \<open>
  \<^verbatim>\<open>self.position\<close>, \<^verbatim>\<open>self.rotation\<close> and \<^verbatim>\<open>self.velocity\<close> are lists of
  three floats, created by \<^verbatim>\<open>__init__\<close> and only ever read and written at the
  constant indices 0, 1 and 2. A three-element list is the record \<open>vec3\<close>, whose
  field \<open>idx\<^sub>k\<close> is the element at index \<open>k\<close>. For \<^verbatim>\<open>position\<close> the indices are
  x, y, z; for \<^verbatim>\<open>rotation\<close> they are the angles about the X, Y and Z axes
  (pitch, yaw, roll).
\<close>

record vec3 =
  idx0 :: real
  idx1 :: real
  idx2 :: real

record ModelController =
  position :: vec3
  rotation :: vec3
  velocity :: vec3

definition zero3 :: vec3 where
  "zero3 = \<lparr>idx0 = 0.0, idx1 = 0.0, idx2 = 0.0\<rparr>"

text \<open>\<^verbatim>\<open>ModelController.__init__\<close>\<close>

definition ModelController_init :: ModelController where
  "ModelController_init = \<lparr>position = zero3, rotation = zero3, velocity = zero3\<rparr>"

subsection \<open>The state transition\<close>

text \<open>
  Python's \<^verbatim>\<open>a % m\<close> on floats takes the sign of the divisor: it is
  \<open>a - m * floor (a / m)\<close>. The only divisor in the program is the constant 360.
\<close>

definition py_mod :: "real \<Rightarrow> real \<Rightarrow> real" where
  "py_mod a m = a - m * of_int \<lfloor>a / m\<rfloor>"

text \<open>
  A sample is the tuple \<^verbatim>\<open>(x_axis, y_axis, button_pressed)\<close>; the argument
  \<^verbatim>\<open>joystick_data\<close> is a sample or \<^verbatim>\<open>None\<close>. The method mutates \<^verbatim>\<open>self\<close>; the
  model returns the new state. The successive assignments to \<^verbatim>\<open>self\<close> are the
  successive bindings of \<open>self\<close>.
\<close>

type_synonym sample = "int \<times> int \<times> bool"

definition update_from_joystick :: "ModelController \<Rightarrow> sample option \<Rightarrow> ModelController" where
  "update_from_joystick self joystick_data =
     (case joystick_data of
        None \<Rightarrow> self
      | Some (x_axis, y_axis, button_pressed) \<Rightarrow>
          let x_normalized = real_of_int (x_axis - JOYSTICK_CENTER) / JOYSTICK_MAX;
              y_normalized = real_of_int (y_axis - JOYSTICK_CENTER) / JOYSTICK_MAX;
              deadzone = 0.1;
              x_normalized = (if \<bar>x_normalized\<bar> < deadzone then 0.0 else x_normalized);
              y_normalized = (if \<bar>y_normalized\<bar> < deadzone then 0.0 else y_normalized);
              self = self\<lparr>position := (position self)
                       \<lparr>idx0 := idx0 (position self) + x_normalized * MOVEMENT_SPEED\<rparr>\<rparr>;
              self = self\<lparr>rotation := (rotation self)
                       \<lparr>idx1 := idx1 (rotation self) + y_normalized * ROTATION_SPEED\<rparr>\<rparr>;
              self = self\<lparr>rotation := (rotation self)
                       \<lparr>idx1 := py_mod (idx1 (rotation self)) 360\<rparr>\<rparr>
          in if button_pressed then
               self\<lparr>position := (position self)\<lparr>idx1 := idx1 (position self) + JUMP_HEIGHT\<rparr>\<rparr>
             else if idx1 (position self) > 0.0 then
               self\<lparr>position := (position self)\<lparr>idx1 := max 0.0 (idx1 (position self) - 0.05)\<rparr>\<rparr>
             else self)"

text \<open>Consecutive calls of the transition, one per tick, oldest sample first.\<close>

definition run :: "ModelController \<Rightarrow> sample option list \<Rightarrow> ModelController" where
  "run self ds = foldl update_from_joystick self ds"

subsection \<open>A state above the ground\<close>

text \<open>The state after five ticks with the button held, starting from \<^verbatim>\<open>__init__\<close>.\<close>

definition airborne :: ModelController where
  "airborne = \<lparr>position = \<lparr>idx0 = 0, idx1 = 1, idx2 = 0\<rparr>, rotation = zero3, velocity = zero3\<rparr>"

subsection \<open>The state transition in binary64\<close>

text \<open>
  Rounding to binary64: the nearest number with a significand of 53 bits, a tie going
  to the even significand. \<open>exponent x\<close> is the integer \<open>e\<close> with
  \<open>2\<^sup>e \<le> |x| < 2\<^sup>e\<^sup>+\<^sup>1\<close>.
\<close>

definition round_half_even :: "real \<Rightarrow> int" where
  "round_half_even v =
     (let f = \<lfloor>v\<rfloor>; r = v - of_int f
      in if r < 1 / 2 then f else if 1 / 2 < r then f + 1 else if even f then f else f + 1)"

definition exponent :: "real \<Rightarrow> int" where
  "exponent x = (if 1 \<le> \<bar>x\<bar> then bitlen \<lfloor>\<bar>x\<bar>\<rfloor> - 1 else - bitlen (\<lceil>1 / \<bar>x\<bar>\<rceil> - 1))"

definition b64 :: "real \<Rightarrow> real" where
  "b64 x = (if x = 0 then 0
            else let e = exponent x - 52
                 in of_int (round_half_even (x / power_int 2 e)) * power_int 2 e)"

text \<open>
  Python's \<^verbatim>\<open>a % m\<close> on floats as CPython computes it: the C function \<^verbatim>\<open>fmod\<close>,
  which is exact and has the sign of \<open>a\<close>, and then one addition of \<open>m\<close>, which is
  rounded, when the signs of the remainder and of \<open>m\<close> differ.
\<close>

definition py_mod_fl :: "(real \<Rightarrow> real) \<Rightarrow> real \<Rightarrow> real \<Rightarrow> real" where
  "py_mod_fl rnd a m =
     (let q = a / m;
          r = a - m * of_int (if 0 \<le> q then \<lfloor>q\<rfloor> else \<lceil>q\<rceil>)
      in if r = 0 then r
         else if (m < 0) = (r < 0) then r
         else rnd (r + m))"

text \<open>
  \<^verbatim>\<open>update_from_joystick\<close> again, with the rounding \<open>rnd\<close> applied to every literal,
  to the conversion of the integer to a float, and to the result of every arithmetic
  operation.
\<close>

definition update_from_joystick_fl ::
    "(real \<Rightarrow> real) \<Rightarrow> ModelController \<Rightarrow> sample option \<Rightarrow> ModelController" where
  "update_from_joystick_fl rnd self joystick_data =
     (case joystick_data of
        None \<Rightarrow> self
      | Some (x_axis, y_axis, button_pressed) \<Rightarrow>
          let x_normalized = rnd (rnd (real_of_int (x_axis - JOYSTICK_CENTER)) / rnd JOYSTICK_MAX);
              y_normalized = rnd (rnd (real_of_int (y_axis - JOYSTICK_CENTER)) / rnd JOYSTICK_MAX);
              deadzone = rnd 0.1;
              x_normalized = (if \<bar>x_normalized\<bar> < deadzone then 0.0 else x_normalized);
              y_normalized = (if \<bar>y_normalized\<bar> < deadzone then 0.0 else y_normalized);
              self = self\<lparr>position := (position self)
                       \<lparr>idx0 := rnd (idx0 (position self)
                                      + rnd (x_normalized * rnd MOVEMENT_SPEED))\<rparr>\<rparr>;
              self = self\<lparr>rotation := (rotation self)
                       \<lparr>idx1 := rnd (idx1 (rotation self)
                                      + rnd (y_normalized * rnd ROTATION_SPEED))\<rparr>\<rparr>;
              self = self\<lparr>rotation := (rotation self)
                       \<lparr>idx1 := py_mod_fl rnd (idx1 (rotation self)) (rnd 360)\<rparr>\<rparr>
          in if button_pressed then
               self\<lparr>position := (position self)
                 \<lparr>idx1 := rnd (idx1 (position self) + rnd JUMP_HEIGHT)\<rparr>\<rparr>
             else if idx1 (position self) > 0.0 then
               self\<lparr>position := (position self)
                 \<lparr>idx1 := max 0.0 (rnd (idx1 (position self) - rnd 0.05))\<rparr>\<rparr>
             else self)"

definition run_fl ::
    "(real \<Rightarrow> real) \<Rightarrow> ModelController \<Rightarrow> sample option list \<Rightarrow> ModelController" where
  "run_fl rnd self ds = foldl (update_from_joystick_fl rnd) self ds"

subsection \<open>The serial channel, as one call sees it\<close>

text \<open>
  The exceptions that the body of \<^verbatim>\<open>read_joystick_data\<close> can raise, as values.
\<close>

datatype exn = ValueError | SerialException | UnicodeDecodeError

text \<open>
  \<^verbatim>\<open>ser\<close> is \<^verbatim>\<open>None\<close> or a \<^verbatim>\<open>serial.Serial\<close> object of the pyserial library,
  which is not part of the repository. The function reads its attribute
  \<^verbatim>\<open>in_waiting\<close> (the number of bytes in the receive buffer) and calls
  \<^verbatim>\<open>readline()\<close> once, which returns bytes or raises \<^verbatim>\<open>SerialException\<close>. The
  record holds what these two operations give at the moment of the call. Bytes are
  \<open>char\<close>, which has 8 bits.
\<close>

record serial_port =
  in_waiting :: nat
  readline :: "exn + string"

text \<open>A port whose receive buffer holds exactly the bytes \<open>raw\<close>, returned by \<^verbatim>\<open>readline()\<close>.\<close>

definition holding :: "string \<Rightarrow> serial_port" where
  "holding raw = \<lparr>in_waiting = length raw, readline = Inr raw\<rparr>"

subsection \<open>The interpreter\<close>

text \<open>
  What the decoder makes of a line depends on three things that belong to the Python
  interpreter and not to the program. They are parameters of the model.
  \<^item> \<open>int_max_str_digits\<close>: the limit on the digits of an integer literal
    (\<^verbatim>\<open>sys.get_int_max_str_digits()\<close>); 4300 by default from Python 3.11 on,
    0 for no limit, as in earlier versions.
  \<^item> \<open>unicode_space\<close>: the characters from U+0080 on that \<^verbatim>\<open>str.isspace\<close> accepts.
  \<^item> \<open>unicode_decimal\<close>: the value of the characters from U+0080 on that are decimal
    digits, a number from 0 to 9.
  The two tables come from the Unicode database of the interpreter and grow with its
  version.
\<close>

record interpreter =
  int_max_str_digits :: nat
  unicode_space :: "nat \<Rightarrow> bool"
  unicode_decimal :: "nat \<Rightarrow> nat option"

text \<open>
  CPython 3.11, which has Unicode 14.0. Its decimal digits beyond ASCII come in 65 runs
  of ten consecutive characters with the values 0 to 9; the list has the first
  character of each run.
\<close>

definition unicode_space_14 :: "nat \<Rightarrow> bool" where
  "unicode_space_14 c =
     (c \<in> set [133, 160, 5760, 8232, 8233, 8239, 8287, 12288] \<or> (8192 \<le> c \<and> c \<le> 8202))"

definition decimal_runs_14 :: "nat list" where
  "decimal_runs_14 =
     [1632, 1776, 1984, 2406, 2534, 2662, 2790, 2918, 3046, 3174, 3302, 3430, 3558,
      3664, 3792, 3872, 4160, 4240, 6112, 6160, 6470, 6608, 6784, 6800, 6992, 7088,
      7232, 7248, 42528, 43216, 43264, 43472, 43504, 43600, 44016, 65296, 66720, 68912,
      69734, 69872, 69942, 70096, 70384, 70736, 70864, 71248, 71360, 71472, 71904,
      72016, 72784, 73040, 73120, 92768, 92864, 93008, 120782, 120792, 120802, 120812,
      120822, 123200, 123632, 125264, 130032]"

definition unicode_decimal_14 :: "nat \<Rightarrow> nat option" where
  "unicode_decimal_14 c =
     (case filter (\<lambda>first. first \<le> c \<and> c < first + 10) decimal_runs_14 of
        [] \<Rightarrow> None
      | first # others \<Rightarrow> Some (c - first))"

definition cpython_3_11 :: interpreter where
  "cpython_3_11 = \<lparr>int_max_str_digits = 4300, unicode_space = unicode_space_14,
                    unicode_decimal = unicode_decimal_14\<rparr>"

subsection \<open>Text operations of Python\<close>

text \<open>
  A \<^verbatim>\<open>str\<close> is a list of code points. Some of them by name:
\<close>

type_synonym str = "nat list"

abbreviation LINE_FEED :: nat where "LINE_FEED \<equiv> 10"
abbreviation SPACE :: nat where "SPACE \<equiv> 32"
abbreviation PLUS :: nat where "PLUS \<equiv> 43"
abbreviation COMMA :: nat where "COMMA \<equiv> 44"
abbreviation MINUS :: nat where "MINUS \<equiv> 45"
abbreviation DIGIT_ZERO :: nat where "DIGIT_ZERO \<equiv> 48"
abbreviation QUESTION_MARK :: nat where "QUESTION_MARK \<equiv> 63"
abbreviation UNDERSCORE :: nat where "UNDERSCORE \<equiv> 95"

text \<open>
  \<^verbatim>\<open>bytes.decode('utf-8')\<close>, the strict decoder: one to four bytes for a code point,
  every byte after the first a continuation byte \<open>10xxxxxx\<close>; no encoding longer than
  needed (lead bytes \<open>C0\<close> and \<open>C1\<close>, \<open>E0\<close> before \<open>A0\<close>, \<open>F0\<close> before \<open>90\<close>), no
  surrogate (\<open>ED\<close> after \<open>9F\<close>) and nothing beyond U+10FFFF (\<open>F4\<close> after \<open>8F\<close>, lead
  bytes from \<open>F5\<close>). \<open>None\<close> is \<^verbatim>\<open>UnicodeDecodeError\<close>.
\<close>

definition continuation :: "nat \<Rightarrow> bool" where
  "continuation b = (128 \<le> b \<and> b \<le> 191)"

fun utf8_decode :: "nat list \<Rightarrow> str option" where
  "utf8_decode [] = Some []"
| "utf8_decode (b0 # bs) =
     (if b0 < 128 then map_option ((#) b0) (utf8_decode bs)
      else if 194 \<le> b0 \<and> b0 \<le> 223 then
        (case bs of
           b1 # r \<Rightarrow>
             if continuation b1
             then map_option ((#) ((b0 - 192) * 64 + (b1 - 128))) (utf8_decode r)
             else None
         | _ \<Rightarrow> None)
      else if 224 \<le> b0 \<and> b0 \<le> 239 then
        (case bs of
           b1 # b2 # r \<Rightarrow>
             if continuation b1 \<and> continuation b2
                \<and> (if b0 = 224 then 160 \<le> b1 else True)
                \<and> (if b0 = 237 then b1 \<le> 159 else True)
             then map_option ((#) ((b0 - 224) * 4096 + (b1 - 128) * 64 + (b2 - 128)))
                    (utf8_decode r)
             else None
         | _ \<Rightarrow> None)
      else if 240 \<le> b0 \<and> b0 \<le> 244 then
        (case bs of
           b1 # b2 # b3 # r \<Rightarrow>
             if continuation b1 \<and> continuation b2 \<and> continuation b3
                \<and> (if b0 = 240 then 144 \<le> b1 else True)
                \<and> (if b0 = 244 then b1 \<le> 143 else True)
             then map_option
                    ((#) ((b0 - 240) * 262144 + (b1 - 128) * 4096 + (b2 - 128) * 64 + (b3 - 128)))
                    (utf8_decode r)
             else None
         | _ \<Rightarrow> None)
      else None)"

definition decode_utf8 :: "string \<Rightarrow> exn + str" where
  "decode_utf8 raw =
     (case utf8_decode (map of_char raw) of
        None \<Rightarrow> Inl UnicodeDecodeError
      | Some t \<Rightarrow> Inr t)"

text \<open>
  The characters that \<^verbatim>\<open>str.strip()\<close> removes (\<^verbatim>\<open>str.isspace\<close>). Below U+0080:
  tab, line feed, vertical tab, form feed, carriage return, the separators \<open>1C\<close> to
  \<open>1F\<close>, and the space. From U+0080 on: the table of the interpreter.
\<close>

definition py_isspace :: "interpreter \<Rightarrow> nat \<Rightarrow> bool" where
  "py_isspace ip c =
     (if c < 128 then c \<in> set [9, 10, 11, 12, 13, 28, 29, 30, 31, 32]
      else unicode_space ip c)"

definition py_strip :: "interpreter \<Rightarrow> str \<Rightarrow> str" where
  "py_strip ip s = rev (dropWhile (py_isspace ip) (rev (dropWhile (py_isspace ip) s)))"

text \<open>\<^verbatim>\<open>s.split(sep)\<close> with a one-character separator: an empty string gives one empty token.\<close>

fun py_split :: "str \<Rightarrow> nat \<Rightarrow> str list" where
  "py_split [] sep = [[]]"
| "py_split (c # cs) sep =
     (if c = sep then [] # py_split cs sep
      else (case py_split cs sep of
              t # ts \<Rightarrow> (c # t) # ts
            | [] \<Rightarrow> [[c]]))"

text \<open>
  \<^verbatim>\<open>int(s)\<close>, base 10, as CPython reads it. A string with a character from U+0080
  on is first rewritten (\<^verbatim>\<open>_PyUnicode_TransformDecimalAndSpaceToASCII\<close>): characters
  below \<open>7F\<close> stay, whitespace becomes a space, a decimal digit becomes the ASCII digit of
  its value, and anything else (the character \<open>7F\<close> too) becomes a question mark
  (CPython also cuts the string after it, which changes nothing: a question mark is
  accepted nowhere). A string of ASCII characters is taken as it is.

  Then (\<^verbatim>\<open>PyLong_FromString\<close>): leading whitespace (the six characters of C's
  \<^verbatim>\<open>isspace\<close>; the separators \<open>1C\<close> to \<open>1F\<close> are not skipped here), an optional sign,
  digits in which single underscores may stand between two digits, and trailing
  whitespace up to the end of the string. Anything else raises \<^verbatim>\<open>ValueError\<close>. So
  does a literal of more than \<open>int_max_str_digits\<close> digits when that setting is not 0;
  CPython applies it only to literals of more than 640 digits.
\<close>

definition to_ascii :: "interpreter \<Rightarrow> nat \<Rightarrow> nat" where
  "to_ascii ip c =
     (if c < 127 then c
      else if py_isspace ip c then SPACE
      else if c < 128 then QUESTION_MARK
      else (case unicode_decimal ip c of
              Some d \<Rightarrow> DIGIT_ZERO + d
            | None \<Rightarrow> QUESTION_MARK))"

definition transform_decimal_and_space :: "interpreter \<Rightarrow> str \<Rightarrow> str" where
  "transform_decimal_and_space ip s =
     (if list_all (\<lambda>c. c < 128) s then s else map (to_ascii ip) s)"

definition c_isspace :: "nat \<Rightarrow> bool" where
  "c_isspace c = (c \<in> set [9, 10, 11, 12, 13, 32])"

definition is_digit :: "nat \<Rightarrow> bool" where
  "is_digit c = (48 \<le> c \<and> c \<le> 57)"

definition digit_or_underscore :: "nat \<Rightarrow> bool" where
  "digit_or_underscore c = (is_digit c \<or> c = UNDERSCORE)"

fun adjacent_underscores :: "str \<Rightarrow> bool" where
  "adjacent_underscores (a # b # cs) =
     ((a = UNDERSCORE \<and> b = UNDERSCORE) \<or> adjacent_underscores (b # cs))"
| "adjacent_underscores cs = False"

definition digits_value :: "str \<Rightarrow> nat" where
  "digits_value ds = foldl (\<lambda>acc c. 10 * acc + (c - DIGIT_ZERO)) 0 ds"

definition strip_sign :: "str \<Rightarrow> bool \<times> str" where
  "strip_sign s =
     (case s of
        [] \<Rightarrow> (False, s)
      | c # r \<Rightarrow> if c = PLUS then (False, r)
                 else if c = MINUS then (True, r)
                 else (False, s))"

definition py_int :: "interpreter \<Rightarrow> str \<Rightarrow> exn + int" where
  "py_int ip s =
     (let (negative, s) = strip_sign (dropWhile c_isspace (transform_decimal_and_space ip s));
          body = takeWhile digit_or_underscore s;
          rest = dropWhile digit_or_underscore s;
          digits = filter is_digit body
      in if body = [] \<or> hd body = UNDERSCORE \<or> last body = UNDERSCORE
            \<or> adjacent_underscores body then Inl ValueError
         else if \<not> list_all c_isspace rest then Inl ValueError
         else if 640 < length digits \<and> 0 < int_max_str_digits ip
                 \<and> int_max_str_digits ip < length digits
           then Inl ValueError
         else Inr (if negative then - int (digits_value digits)
                   else int (digits_value digits)))"

text \<open>
  \<^verbatim>\<open>x_axis, y_axis, button = map(int, tokens)\<close>: the unpacking needs exactly three
  values, each the result of \<^verbatim>\<open>int\<close>; a failing \<^verbatim>\<open>int\<close> and a wrong number of
  values both raise \<^verbatim>\<open>ValueError\<close>.
\<close>

fun unpack3 :: "(exn + int) list \<Rightarrow> exn + (int \<times> int \<times> int)" where
  "unpack3 [Inr a, Inr b, Inr c] = Inr (a, b, c)"
| "unpack3 vs = Inl ValueError"

subsection \<open>The decoder\<close>

text \<open>
  The body of the \<^verbatim>\<open>try\<close> statement of \<^verbatim>\<open>read_joystick_data\<close>: its result is the
  value it returns, or the exception it raises. \<open>decode_line\<close> is the part of it after
  \<^verbatim>\<open>readline()\<close> has returned the bytes \<open>raw\<close>.
\<close>

definition decode_line :: "interpreter \<Rightarrow> string \<Rightarrow> exn + sample option" where
  "decode_line ip raw =
     (case decode_utf8 raw of
        Inl e \<Rightarrow> Inl e
      | Inr text \<Rightarrow>
          let line = py_strip ip text
          in if line = [] then Inr None
             else (case unpack3 (map (py_int ip) (py_split line COMMA)) of
                     Inl e \<Rightarrow> Inl e
                   | Inr (x_axis, y_axis, button) \<Rightarrow>
                       if \<not> (0 \<le> x_axis \<and> x_axis \<le> 1023 \<and> 0 \<le> y_axis \<and> y_axis \<le> 1023)
                       then Inr None
                       else let button_pressed = (button = 0)
                            in Inr (Some (x_axis, y_axis, button_pressed))))"

definition try_body :: "interpreter \<Rightarrow> serial_port \<Rightarrow> exn + sample option" where
  "try_body ip ser =
     (case readline ser of
        Inl e \<Rightarrow> Inl e
      | Inr raw \<Rightarrow> decode_line ip raw)"

text \<open>
  The \<^verbatim>\<open>except\<close> clause catches the three exceptions and returns \<^verbatim>\<open>None\<close> for
  each.
\<close>

definition except_clause :: "exn + sample option \<Rightarrow> sample option" where
  "except_clause outcome =
     (case outcome of
        Inr result \<Rightarrow> result
      | Inl ValueError \<Rightarrow> None
      | Inl SerialException \<Rightarrow> None
      | Inl UnicodeDecodeError \<Rightarrow> None)"

text \<open>\<^verbatim>\<open>read_joystick_data\<close>\<close>

definition read_joystick_data :: "interpreter \<Rightarrow> serial_port option \<Rightarrow> sample option" where
  "read_joystick_data ip ser =
     (case ser of
        None \<Rightarrow> None
      | Some port \<Rightarrow>
          if in_waiting port = 0 then None
          else except_clause (try_body ip port))"

text \<open>
  One iteration of the main loop, as far as the state is concerned: the decoder is
  polled once and the transition is applied to what it returns.
\<close>

definition tick :: "interpreter \<Rightarrow> serial_port option \<Rightarrow> ModelController \<Rightarrow> ModelController" where
  "tick ip ser self = update_from_joystick self (read_joystick_data ip ser)"

subsection \<open>Frames as the device writes them\<close>

text \<open>
  The decimal text of an integer, as \<^verbatim>\<open>str\<close> and an f-string give it; the text
  \<^verbatim>\<open>"{x},{y},{b}"\<close> of the three fields; its bytes; and the frame of the wire format,
  which is the bytes of that text and of a line feed.
\<close>

fun str_nat :: "nat \<Rightarrow> str" where
  "str_nat n = (if n < 10 then [DIGIT_ZERO + n]
                else str_nat (n div 10) @ [DIGIT_ZERO + n mod 10])"

declare str_nat.simps [simp del]

definition py_str :: "int \<Rightarrow> str" where
  "py_str i = (if i < 0 then MINUS # str_nat (nat (- i)) else str_nat (nat i))"

definition frame_text :: "int \<Rightarrow> int \<Rightarrow> int \<Rightarrow> str" where
  "frame_text x y b = py_str x @ COMMA # py_str y @ COMMA # py_str b"

definition encode :: "str \<Rightarrow> string" where
  "encode s = map char_of s"

definition frame :: "int \<Rightarrow> int \<Rightarrow> int \<Rightarrow> string" where
  "frame x y b = encode (frame_text x y b @ [LINE_FEED])"

text \<open>The tokens of a line of text, \<^verbatim>\<open>line.strip().split(',')\<close>.\<close>

definition tokens :: "interpreter \<Rightarrow> str \<Rightarrow> str list" where
  "tokens ip s = py_split (py_strip ip s) COMMA"

text \<open>
  Consecutive ticks, each finding one of the given lines in the receive buffer,
  oldest line first.
\<close>

definition feed :: "interpreter \<Rightarrow> ModelController \<Rightarrow> string list \<Rightarrow> ModelController" where
  "feed ip self lines = foldl (\<lambda>state line. tick ip (Some (holding line)) state) self lines"

subsection \<open>The serial channel, as a state\<close>

text \<open>
  Modelled from the spec: the channel of the serial channel interface of its section 6,
  which the repository takes from the pyserial library and which is not under its
  sources. The state of a channel is the bytes received and not yet read, and a count
  of the calls of \<^verbatim>\<open>read_line\<close> made on it.
\<close>

record channel =
  buffer :: string
  reads :: nat

text \<open>
  What a call gives: it returns a value, or it waits for bytes that have not arrived.
  What arrives later is not part of the state.
\<close>

datatype 'a outcome = Returns 'a | Waits

text \<open>
  Modelled from the spec: \<^verbatim>\<open>bytes_available(channel) -> int\<close> of section 6 (pyserial's
  \<^verbatim>\<open>in_waiting\<close>), the number of bytes in the buffer.
\<close>

definition bytes_available :: "channel \<Rightarrow> nat" where
  "bytes_available ch = length (buffer ch)"

text \<open>
  Modelled from the spec: \<^verbatim>\<open>read_line(channel) -> bytes\<close> of section 6 (pyserial's
  \<^verbatim>\<open>readline()\<close>). It takes the bytes up to and including the first line feed out of
  the buffer. When the buffer holds no line feed the line is not complete, and the read
  waits (pyserial waits until the line feed comes or the timeout set when the port was
  opened, one second here, has passed).
\<close>

definition read_line :: "channel \<Rightarrow> (string \<times> channel) outcome" where
  "read_line ch =
     (if CHR 0x0A \<in> set (buffer ch)
      then Returns (takeWhile (\<lambda>c. c \<noteq> CHR 0x0A) (buffer ch) @ [CHR 0x0A],
                    ch\<lparr>buffer := tl (dropWhile (\<lambda>c. c \<noteq> CHR 0x0A) (buffer ch)),
                       reads := reads ch + 1\<rparr>)
      else Waits)"

text \<open>
  \<^verbatim>\<open>read_joystick_data\<close> in state-passing form: the value returned and the channel
  after the call, or \<open>Waits\<close> when the call does not return with the bytes received
  so far.
\<close>

definition read_joystick_data_st ::
    "interpreter \<Rightarrow> channel option \<Rightarrow> (sample option \<times> channel option) outcome" where
  "read_joystick_data_st ip ser =
     (case ser of
        None \<Rightarrow> Returns (None, None)
      | Some ch \<Rightarrow>
          if bytes_available ch = 0 then Returns (None, Some ch)
          else (case read_line ch of
                  Waits \<Rightarrow> Waits
                | Returns (raw, ch') \<Rightarrow>
                    Returns (except_clause (decode_line ip raw), Some ch')))"

text \<open>A channel that has received two complete lines.\<close>

definition two_lines :: channel where
  "two_lines = \<lparr>buffer = ''7,8,0'' @ [CHR 0x0A] @ ''1,2,1'' @ [CHR 0x0A], reads = 0\<rparr>"

section \<open>Properties of the state transition\<close>

lemma py_mod_range:
  assumes "0 < m"
  shows "0 \<le> py_mod a m \<and> py_mod a m < m"
proof -
  have lo: "of_int \<lfloor>a / m\<rfloor> * m \<le> a"
    using assms by (rule floor_divide_lower)
  have hi: "a < (of_int \<lfloor>a / m\<rfloor> + 1) * m"
    using assms by (rule floor_divide_upper)
  from lo hi show ?thesis
    by (simp add: py_mod_def algebra_simps)
qed

lemma update_None: "update_from_joystick self None = self"
  by (simp add: update_from_joystick_def)

lemma run_Nil: "run self [] = self"
  by (simp add: run_def)

lemma run_snoc: "run self (ds @ [d]) = update_from_joystick (run self ds) d"
  by (simp add: run_def)

lemma run_Cons: "run self (d # ds) = run (update_from_joystick self d) ds"
  by (simp add: run_def)

lemma yaw_after_sample:
  "0 \<le> idx1 (rotation (update_from_joystick self (Some smp))) \<and>
   idx1 (rotation (update_from_joystick self (Some smp))) < 360"
proof -
  obtain xa ya b where smp: "smp = (xa, ya, b)"
    by (cases smp) auto
  have r: "\<And>a. 0 \<le> py_mod a 360 \<and> py_mod a 360 < 360"
    by (rule py_mod_range) simp
  show ?thesis
    unfolding smp update_from_joystick_def using r
    by (simp add: Let_def)
qed

lemma yaw_step:
  assumes "0 \<le> idx1 (rotation self)" and "idx1 (rotation self) < 360"
  shows "0 \<le> idx1 (rotation (update_from_joystick self d)) \<and>
         idx1 (rotation (update_from_joystick self d)) < 360"
proof (cases d)
  case None
  with assms show ?thesis by (simp add: update_None)
next
  case (Some smp)
  then show ?thesis using yaw_after_sample by simp
qed

lemma yaw_run:
  "0 \<le> idx1 (rotation (run ModelController_init ds)) \<and>
   idx1 (rotation (run ModelController_init ds)) < 360"
proof (induction ds rule: rev_induct)
  case Nil
  show ?case by (simp add: run_Nil ModelController_init_def zero3_def)
next
  case (snoc d ds)
  then show ?case
    unfolding run_snoc by (intro yaw_step) simp_all
qed

lemma update_frame:
  "idx2 (position (update_from_joystick self d)) = idx2 (position self) \<and>
   idx0 (rotation (update_from_joystick self d)) = idx0 (rotation self) \<and>
   idx2 (rotation (update_from_joystick self d)) = idx2 (rotation self) \<and>
   velocity (update_from_joystick self d) = velocity self"
  by (cases d) (simp_all add: update_from_joystick_def Let_def split: prod.splits)

lemma update_pressed_y:
  "idx1 (position (update_from_joystick self (Some (x_axis, y_axis, True)))) =
   idx1 (position self) + JUMP_HEIGHT"
  by (simp add: update_from_joystick_def Let_def)

lemma held_button_height:
  "list_all (\<lambda>(x_axis, y_axis, button_pressed). button_pressed) ds \<Longrightarrow>
   idx1 (position (run self (map Some ds))) =
   idx1 (position self) + JUMP_HEIGHT * real (length ds)"
proof (induction ds arbitrary: self)
  case Nil
  show ?case by (simp add: run_Nil)
next
  case (Cons d ds)
  obtain xa ya where d: "d = (xa, ya, True)"
    using Cons.prems by (cases d) auto
  have rest: "list_all (\<lambda>(x_axis, y_axis, button_pressed). button_pressed) ds"
    using Cons.prems by simp
  show ?case
    by (simp add: d run_Cons Cons.IH [OF rest] update_pressed_y algebra_simps)
qed

lemma airborne_reached:
  "run ModelController_init (replicate 5 (Some (512, 512, True))) = airborne"
  by (simp add: numeral_eq_Suc run_def update_from_joystick_def Let_def airborne_def
      ModelController_init_def zero3_def JOYSTICK_CENTER_def JOYSTICK_MAX_def
      MOVEMENT_SPEED_def ROTATION_SPEED_def JUMP_HEIGHT_def py_mod_def)

subsection \<open>Exact and rounded arithmetic\<close>

lemma py_mod_fl_exact:
  assumes "0 < m"
  shows "py_mod_fl (\<lambda>v. v) a m = py_mod a m"
proof -
  let ?f = "\<lfloor>a / m\<rfloor>"
  have lo: "of_int ?f * m \<le> a"
    using assms by (rule floor_divide_lower)
  have hi: "a < (of_int ?f + 1) * m"
    using assms by (rule floor_divide_upper)
  show ?thesis
  proof (cases "0 \<le> a / m")
    case True
    then show ?thesis
      using lo hi assms by (simp add: py_mod_fl_def py_mod_def Let_def algebra_simps)
  next
    case False
    show ?thesis
    proof (cases "a / m = of_int ?f")
      case True
      then have c: "\<lceil>a / m\<rceil> = ?f"
        by (metis ceiling_of_int)
      have "a = m * of_int ?f"
        using True assms by (simp add: field_simps)
      then have "a - m * of_int ?f = 0"
        by simp
      then show ?thesis
        using False c by (simp add: py_mod_fl_def py_mod_def Let_def)
    next
      case ne: False
      then have c: "\<lceil>a / m\<rceil> = ?f + 1"
        by (simp add: ceiling_altdef)
      have "a \<noteq> m * of_int ?f"
        using ne assms by (auto simp: field_simps)
      with lo have pos: "of_int ?f * m < a"
        by (simp add: mult.commute)
      show ?thesis
        using False c pos hi assms
        by (simp add: py_mod_fl_def py_mod_def Let_def algebra_simps)
    qed
  qed
qed

lemma update_exact:
  "update_from_joystick_fl (\<lambda>v. v) self d = update_from_joystick self d"
proof -
  have m: "py_mod_fl (\<lambda>v. v) a 360 = py_mod a 360" for a
    by (rule py_mod_fl_exact) simp
  show ?thesis
    by (simp add: update_from_joystick_fl_def update_from_joystick_def m
        split: option.splits prod.splits)
qed

lemma update_fl_pressed_y:
  "idx1 (position (update_from_joystick_fl rnd self (Some (x_axis, y_axis, True)))) =
   rnd (idx1 (position self) + rnd JUMP_HEIGHT)"
  by (simp add: update_from_joystick_fl_def Let_def)

lemma b64_three_jumps:
  "b64 (b64 (b64 (0 + b64 (2 / 10)) + b64 (2 / 10)) + b64 (2 / 10)) = 5404319552844596 / 2 ^ 53"
  by code_simp

lemma b64_one_fifth: "b64 (2 / 10) = 3602879701896397 / 2 ^ 54"
  by code_simp

lemma b64_three_fifths: "b64 (6 / 10) = 5404319552844595 / 2 ^ 53"
  by code_simp

lemma three_jumps_fl:
  assumes "idx1 (position self) = 0"
  shows "idx1 (position (run_fl b64 self
           [Some (x1, y1, True), Some (x2, y2, True), Some (x3, y3, True)]))
         = 5404319552844596 / 2 ^ 53"
  using assms b64_three_jumps
  by (simp add: run_fl_def update_fl_pressed_y JUMP_HEIGHT_def)

section \<open>Properties of the decoder\<close>

subsection \<open>Splitting and stripping\<close>

lemma py_split_not_Nil: "py_split s sep \<noteq> []"
  by (induction s) (auto split: list.splits)

lemma py_split_no_sep: "sep \<notin> set s \<Longrightarrow> py_split s sep = [s]"
  by (induction s) auto

lemma py_split_append:
  "sep \<notin> set a \<Longrightarrow> py_split (a @ sep # r) sep = a # py_split r sep"
  by (induction a) (auto split: list.splits)

lemma py_strip_plain:
  assumes "s \<noteq> []" and "\<not> py_isspace ip (hd s)" and "\<not> py_isspace ip (last s)"
    and "list_all (py_isspace ip) ws"
  shows "py_strip ip (s @ ws) = s"
proof -
  have front: "dropWhile (py_isspace ip) (s @ ws) = s @ ws"
    using assms(1,2) by (cases s) auto
  have "dropWhile (py_isspace ip) (rev s) = rev s"
    using assms(1,3) by (cases s rule: rev_cases) auto
  then have tail: "dropWhile (py_isspace ip) (rev ws @ rev s) = rev s"
    using assms(4) by (simp add: dropWhile_append list_all_iff)
  show ?thesis
    by (simp add: py_strip_def front tail)
qed

subsection \<open>UTF-8 on ASCII\<close>

lemma utf8_decode_ascii: "list_all (\<lambda>b. b < 128) bs \<Longrightarrow> utf8_decode bs = Some bs"
  by (induction bs) simp_all

lemma decode_encode:
  assumes "list_all (\<lambda>c. c < 128) s"
  shows "decode_utf8 (encode s) = Inr s"
proof -
  have "map of_char (map char_of s) = s"
    using assms by (induction s) simp_all
  with assms show ?thesis
    by (simp add: decode_utf8_def encode_def utf8_decode_ascii)
qed

subsection \<open>Decimal text and its value\<close>

lemma str_nat_digits: "list_all is_digit (str_nat n)"
proof (induction n rule: str_nat.induct)
  case (1 n)
  show ?case
  proof (cases "n < 10")
    case True
    then show ?thesis by (simp add: str_nat.simps [of n] is_digit_def)
  next
    case False
    have "n mod 10 < 10" by simp
    then have "is_digit (48 + n mod 10)" by (simp add: is_digit_def)
    with False 1 show ?thesis by (simp add: str_nat.simps [of n])
  qed
qed

lemma str_nat_not_Nil: "str_nat n \<noteq> []"
  by (simp add: str_nat.simps [of n])

lemma digits_value_snoc:
  "digits_value (ds @ [c]) = 10 * digits_value ds + (c - 48)"
  by (simp add: digits_value_def)

lemma digits_value_str_nat: "digits_value (str_nat n) = n"
proof (induction n rule: str_nat.induct)
  case (1 n)
  show ?case
  proof (cases "n < 10")
    case True
    then show ?thesis by (simp add: str_nat.simps [of n] digits_value_def)
  next
    case False
    from False 1 have "digits_value (str_nat (n div 10)) = n div 10" by simp
    with False show ?thesis
      by (simp add: str_nat.simps [of n] digits_value_snoc)
  qed
qed

lemma str_nat_length: "0 < k \<Longrightarrow> n < 10 ^ k \<Longrightarrow> length (str_nat n) \<le> k"
proof (induction n arbitrary: k rule: str_nat.induct)
  case (1 n)
  show ?case
  proof (cases "n < 10")
    case True
    with 1(2) show ?thesis by (simp add: str_nat.simps [of n])
  next
    case False
    from 1(2) obtain j where k: "k = Suc j"
      by (cases k) auto
    have j: "0 < j"
    proof (rule ccontr)
      assume "\<not> 0 < j"
      with k 1(3) False show False by simp
    qed
    have "n div 10 < 10 ^ j"
      using 1(3) k by (simp add: less_mult_imp_div_less mult.commute)
    with 1(1) [OF False j] have "length (str_nat (n div 10)) \<le> j" by simp
    with False k show ?thesis by (simp add: str_nat.simps [of n])
  qed
qed

subsection \<open>The result of one call\<close>

lemma unpack3_Inr_iff: "unpack3 vs = Inr (a, b, c) \<longleftrightarrow> vs = [Inr a, Inr b, Inr c]"
  by (cases vs rule: unpack3.cases) auto

lemma map_eq_three:
  "map f ts = [u, v, w] \<longleftrightarrow> (\<exists>a b c. ts = [a, b, c] \<and> f a = u \<and> f b = v \<and> f c = w)"
  by (auto simp: map_eq_Cons_conv)

lemma except_clause_Inl: "except_clause (Inl e) = None"
  by (cases e) (simp_all add: except_clause_def)

lemma except_clause_Inr: "except_clause (Inr r) = r"
  by (simp add: except_clause_def)

lemma caught_line:
  assumes "decode_utf8 raw = Inr s"
  shows "except_clause (decode_line ip raw) =
     (if py_strip ip s = [] then None
      else (case unpack3 (map (py_int ip) (py_split (py_strip ip s) COMMA)) of
              Inl e \<Rightarrow> None
            | Inr (x_axis, y_axis, button) \<Rightarrow>
                if \<not> (0 \<le> x_axis \<and> x_axis \<le> 1023 \<and> 0 \<le> y_axis \<and> y_axis \<le> 1023)
                then None
                else Some (x_axis, y_axis, button = 0)))"
  using assms
  by (simp add: decode_line_def Let_def except_clause_Inl except_clause_Inr
      split: sum.splits prod.splits)

lemma caught_undecodable:
  assumes "decode_utf8 raw = Inl e"
  shows "except_clause (decode_line ip raw) = None"
  using assms by (simp add: decode_line_def except_clause_Inl)

lemma caught_Some_iff:
  assumes d: "decode_utf8 raw = Inr s"
  shows "except_clause (decode_line ip raw) = Some (x, y, pressed) \<longleftrightarrow>
     (\<exists>tx ty tb b. py_split (py_strip ip s) COMMA = [tx, ty, tb] \<and>
        py_int ip tx = Inr x \<and> py_int ip ty = Inr y \<and> py_int ip tb = Inr b \<and>
        0 \<le> x \<and> x \<le> 1023 \<and> 0 \<le> y \<and> y \<le> 1023 \<and> pressed = (b = 0))"
  (is "?L \<longleftrightarrow> ?R")
proof
  assume l: ?L
  have ne: "py_strip ip s \<noteq> []"
    using l caught_line [OF d, of ip] by (auto split: if_splits)
  obtain b where u: "unpack3 (map (py_int ip) (py_split (py_strip ip s) COMMA)) = Inr (x, y, b)"
    and rg: "0 \<le> x \<and> x \<le> 1023 \<and> 0 \<le> y \<and> y \<le> 1023" and pr: "pressed = (b = 0)"
    using l ne caught_line [OF d, of ip]
    by (auto split: if_splits sum.splits prod.splits)
  from u have "map (py_int ip) (py_split (py_strip ip s) COMMA) = [Inr x, Inr y, Inr b]"
    by (simp only: unpack3_Inr_iff)
  then obtain tx ty tb where "py_split (py_strip ip s) COMMA = [tx, ty, tb]"
    and "py_int ip tx = Inr x" and "py_int ip ty = Inr y" and "py_int ip tb = Inr b"
    unfolding map_eq_three by blast
  with rg pr show ?R by blast
next
  assume ?R
  then obtain tx ty tb b where t: "py_split (py_strip ip s) COMMA = [tx, ty, tb]"
    and i: "py_int ip tx = Inr x" "py_int ip ty = Inr y" "py_int ip tb = Inr b"
    and rg: "0 \<le> x \<and> x \<le> 1023 \<and> 0 \<le> y \<and> y \<le> 1023" and pr: "pressed = (b = 0)"
    by blast
  have ne: "py_strip ip s \<noteq> []"
  proof
    assume "py_strip ip s = []"
    with t show False by simp
  qed
  have u: "unpack3 (map (py_int ip) (py_split (py_strip ip s) COMMA)) = Inr (x, y, b)"
    unfolding t using i by simp
  show ?L
    unfolding caught_line [OF d] u using ne rg pr by simp
qed

lemma read_without_port: "read_joystick_data ip None = None"
  by (simp add: read_joystick_data_def)

lemma read_without_data: "in_waiting p = 0 \<Longrightarrow> read_joystick_data ip (Some p) = None"
  by (simp add: read_joystick_data_def)

lemma read_port:
  assumes "0 < in_waiting p" and "readline p = Inr raw"
  shows "read_joystick_data ip (Some p) = except_clause (decode_line ip raw)"
  using assms by (simp add: read_joystick_data_def try_body_def)

lemma read_caught:
  assumes "readline p = Inl e \<or> (readline p = Inr raw \<and> decode_utf8 raw = Inl e)"
  shows "read_joystick_data ip (Some p) = None"
proof (cases "in_waiting p = 0")
  case True
  then show ?thesis by (rule read_without_data)
next
  case False
  from assms show ?thesis
  proof
    assume "readline p = Inl e"
    with False show ?thesis
      by (simp add: read_joystick_data_def try_body_def except_clause_Inl)
  next
    assume "readline p = Inr raw \<and> decode_utf8 raw = Inl e"
    with False show ?thesis
      by (simp add: read_port caught_undecodable)
  qed
qed

lemma read_Some_iff:
  assumes w: "0 < in_waiting p" and r: "readline p = Inr raw"
  shows "read_joystick_data ip (Some p) = Some (x, y, pressed) \<longleftrightarrow>
     (\<exists>s tx ty tb b. decode_utf8 raw = Inr s \<and> py_split (py_strip ip s) COMMA = [tx, ty, tb] \<and>
        py_int ip tx = Inr x \<and> py_int ip ty = Inr y \<and> py_int ip tb = Inr b \<and>
        0 \<le> x \<and> x \<le> 1023 \<and> 0 \<le> y \<and> y \<le> 1023 \<and> pressed = (b = 0))"
proof (cases "decode_utf8 raw")
  case (Inl e)
  then have "read_joystick_data ip (Some p) = None"
    using r read_caught [of p e raw ip] by simp
  with Inl show ?thesis by simp
next
  case (Inr s)
  show ?thesis
    unfolding read_port [OF w r] caught_Some_iff [OF Inr] using Inr by simp
qed

subsection \<open>Reading integers back\<close>

lemma is_digit_facts:
  assumes "is_digit c"
  shows "\<not> c_isspace c" and "\<not> py_isspace ip c" and "c \<noteq> UNDERSCORE" and "c \<noteq> PLUS"
    and "c \<noteq> MINUS" and "c \<noteq> COMMA" and "c < 128" and "digit_or_underscore c"
  using assms
  by (auto simp: is_digit_def c_isspace_def py_isspace_def digit_or_underscore_def)

lemma no_adjacent_underscores: "UNDERSCORE \<notin> set s \<Longrightarrow> \<not> adjacent_underscores s"
  by (induction s rule: adjacent_underscores.induct) auto

lemma py_int_after_sign:
  assumes tr: "transform_decimal_and_space ip s = s'"
    and sg: "strip_sign (dropWhile c_isspace s') = (negative, ds)"
    and ne: "ds \<noteq> []" and dg: "list_all is_digit ds" and ln: "length ds \<le> 640"
  shows "py_int ip s = Inr (if negative then - int (digits_value ds) else int (digits_value ds))"
proof -
  have all: "\<And>c. c \<in> set ds \<Longrightarrow> is_digit c"
    using dg by (simp add: list_all_iff)
  have body: "takeWhile digit_or_underscore ds = ds"
    using all by (simp add: takeWhile_eq_all_conv is_digit_facts(8))
  have rest: "dropWhile digit_or_underscore ds = []"
    using all by (simp add: is_digit_facts(8))
  have digits: "filter is_digit ds = ds"
    using all by (simp add: filter_id_conv)
  have "hd ds \<in> set ds" and "last ds \<in> set ds"
    using ne by simp_all
  then have ends: "hd ds \<noteq> UNDERSCORE" "last ds \<noteq> UNDERSCORE"
    using all is_digit_facts(3) by blast+
  have "UNDERSCORE \<notin> set ds"
    using all is_digit_facts(3) by blast
  then have adj: "\<not> adjacent_underscores ds"
    by (rule no_adjacent_underscores)
  show ?thesis
    unfolding py_int_def tr sg
    using ne ln adj ends by (simp add: body rest digits)
qed

lemma py_int_digits:
  assumes "ds \<noteq> []" and "list_all is_digit ds" and "length ds \<le> 640"
  shows "py_int ip ds = Inr (int (digits_value ds))"
    and "py_int ip (PLUS # ds) = Inr (int (digits_value ds))"
    and "py_int ip (MINUS # ds) = Inr (- int (digits_value ds))"
proof -
  have all: "\<And>c. c \<in> set ds \<Longrightarrow> is_digit c"
    using assms(2) by (simp add: list_all_iff)
  then have ascii: "list_all (\<lambda>c. c < 128) ds"
    using is_digit_facts(7) by (auto simp: list_all_iff)
  have t0: "transform_decimal_and_space ip ds = ds"
    and t1: "transform_decimal_and_space ip (PLUS # ds) = PLUS # ds"
    and t2: "transform_decimal_and_space ip (MINUS # ds) = MINUS # ds"
    using ascii by (simp_all add: transform_decimal_and_space_def)
  have h: "is_digit (hd ds)"
    using assms(1,2) by (cases ds) simp_all
  have "dropWhile c_isspace ds = ds"
    using assms(1) h is_digit_facts(1) by (cases ds) simp_all
  moreover have "strip_sign ds = (False, ds)"
    using assms(1) h is_digit_facts(4,5) by (cases ds) (auto simp: strip_sign_def)
  ultimately have "strip_sign (dropWhile c_isspace ds) = (False, ds)"
    by simp
  from py_int_after_sign [OF t0 this assms]
  show "py_int ip ds = Inr (int (digits_value ds))" by simp
  have "strip_sign (dropWhile c_isspace (PLUS # ds)) = (False, ds)"
    by (simp add: c_isspace_def strip_sign_def)
  from py_int_after_sign [OF t1 this assms]
  show "py_int ip (PLUS # ds) = Inr (int (digits_value ds))" by simp
  have "strip_sign (dropWhile c_isspace (MINUS # ds)) = (True, ds)"
    by (simp add: c_isspace_def strip_sign_def)
  from py_int_after_sign [OF t2 this assms]
  show "py_int ip (MINUS # ds) = Inr (- int (digits_value ds))" by simp
qed

lemma py_int_str_nat:
  assumes "0 < k" and "k \<le> 640" and "n < 10 ^ k"
  shows "py_int ip (str_nat n) = Inr (int n)"
    and "py_int ip (PLUS # str_nat n) = Inr (int n)"
    and "py_int ip (MINUS # str_nat n) = Inr (- int n)"
proof -
  have "length (str_nat n) \<le> k"
    using assms(1,3) by (rule str_nat_length)
  with assms(2) have l: "length (str_nat n) \<le> 640"
    by simp
  note d = py_int_digits [OF str_nat_not_Nil str_nat_digits l, of ip, unfolded digits_value_str_nat]
  show "py_int ip (str_nat n) = Inr (int n)" by (rule d(1))
  show "py_int ip (PLUS # str_nat n) = Inr (int n)" by (rule d(2))
  show "py_int ip (MINUS # str_nat n) = Inr (- int n)" by (rule d(3))
qed

lemma py_int_py_str:
  assumes "0 < k" and "k \<le> 640" and "\<bar>i\<bar> < 10 ^ k"
  shows "py_int ip (py_str i) = Inr i"
proof (cases "i < 0")
  case True
  have "int (nat (- i)) < 10 ^ k"
    using True assms(3) by simp
  then have "nat (- i) < 10 ^ k"
    by (metis of_nat_less_iff of_nat_power of_nat_numeral)
  from py_int_str_nat(3) [OF assms(1,2) this, of ip] True
  show ?thesis by (simp add: py_str_def)
next
  case False
  then have "int (nat i) < 10 ^ k"
    using assms(3) by simp
  then have "nat i < 10 ^ k"
    by (metis of_nat_less_iff of_nat_power of_nat_numeral)
  from py_int_str_nat(1) [OF assms(1,2) this, of ip] False
  show ?thesis by (simp add: py_str_def)
qed

subsection \<open>Lines of three tokens\<close>

lemma py_int_Nil: "py_int ip [] = Inl ValueError"
  by (simp add: py_int_def strip_sign_def transform_decimal_and_space_def)

lemma read_three_tokens:
  assumes w: "0 < in_waiting p" and r: "readline p = Inr raw"
    and d: "decode_utf8 raw = Inr (tx @ COMMA # ty @ COMMA # tb @ ws)"
    and ix: "py_int ip tx = Inr x" and iy: "py_int ip ty = Inr y" and ib: "py_int ip tb = Inr b"
    and cx: "COMMA \<notin> set tx" and cy: "COMMA \<notin> set ty" and cb: "COMMA \<notin> set tb"
    and hx: "\<not> py_isspace ip (hd tx)" and lb: "\<not> py_isspace ip (last tb)"
    and ws: "list_all (py_isspace ip) ws"
    and rg: "0 \<le> x \<and> x \<le> 1023 \<and> 0 \<le> y \<and> y \<le> 1023"
  shows "read_joystick_data ip (Some p) = Some (x, y, b = 0)"
proof -
  let ?core = "tx @ COMMA # ty @ COMMA # tb"
  have nx: "tx \<noteq> []" and nb: "tb \<noteq> []"
    using ix ib py_int_Nil by auto
  have "hd ?core = hd tx" and "last ?core = last tb"
    using nx nb by simp_all
  with hx lb have "py_strip ip (?core @ ws) = ?core"
    using ws by (intro py_strip_plain) simp_all
  moreover have "py_split ?core COMMA = [tx, ty, tb]"
    using cx cy cb by (simp add: py_split_append py_split_no_sep)
  ultimately have t: "py_split (py_strip ip (?core @ ws)) COMMA = [tx, ty, tb]"
    by simp
  have d': "decode_utf8 raw = Inr (?core @ ws)"
    using d by simp
  have "\<exists>s tx' ty' tb' b'. decode_utf8 raw = Inr s \<and>
        py_split (py_strip ip s) COMMA = [tx', ty', tb'] \<and>
        py_int ip tx' = Inr x \<and> py_int ip ty' = Inr y \<and> py_int ip tb' = Inr b' \<and>
        0 \<le> x \<and> x \<le> 1023 \<and> 0 \<le> y \<and> y \<le> 1023 \<and> (b = 0) = (b' = 0)"
    using d' t ix iy ib rg by blast
  then show ?thesis
    by (simp only: read_Some_iff [OF w r])
qed

lemma py_str_chars:
  shows "py_str i \<noteq> []" and "COMMA \<notin> set (py_str i)" and "list_all (\<lambda>c. c < 128) (py_str i)"
    and "\<not> py_isspace ip (hd (py_str i))" and "\<not> py_isspace ip (last (py_str i))"
proof -
  have d: "\<And>c. c \<in> set (str_nat n) \<Longrightarrow> is_digit c" for n
    using str_nat_digits [of n] by (simp add: list_all_iff)
  have ne: "str_nat n \<noteq> []" for n
    by (rule str_nat_not_Nil)
  have h: "is_digit (hd (str_nat n))" and l: "is_digit (last (str_nat n))" for n
    using d [of _ n] ne [of n] by simp_all
  show "py_str i \<noteq> []"
    by (simp add: py_str_def ne)
  show "COMMA \<notin> set (py_str i)"
    using d is_digit_facts(6) by (auto simp: py_str_def)
  show "list_all (\<lambda>c. c < 128) (py_str i)"
    using d is_digit_facts(7) by (auto simp: py_str_def list_all_iff)
  have m: "\<not> py_isspace ip MINUS"
    by (simp add: py_isspace_def)
  show "\<not> py_isspace ip (hd (py_str i))"
    using h m is_digit_facts(2) by (auto simp: py_str_def)
  show "\<not> py_isspace ip (last (py_str i))"
    using l ne is_digit_facts(2) by (auto simp: py_str_def)
qed

lemma holding_waiting: "s \<noteq> [] \<Longrightarrow> 0 < in_waiting (holding (encode s))"
  by (simp add: holding_def encode_def)

lemma holding_readline: "readline (holding raw) = Inr raw"
  by (simp add: holding_def)

lemma read_fields:
  assumes rg: "0 \<le> x \<and> x \<le> 1023 \<and> 0 \<le> y \<and> y \<le> 1023"
    and "0 < k" and "k \<le> 640" and "\<bar>b\<bar> < 10 ^ k"
    and ws: "list_all (\<lambda>c. c < 128 \<and> py_isspace ip c) ws"
  shows "read_joystick_data ip (Some (holding (encode (frame_text x y b @ ws)))) = Some (x, y, b = 0)"
proof -
  have four: "(0::nat) < 4" "(4::nat) \<le> 640"
    by simp_all
  have "\<bar>x\<bar> < 10 ^ 4" and "\<bar>y\<bar> < 10 ^ 4"
    using rg by simp_all
  then have ix: "py_int ip (py_str x) = Inr x" and iy: "py_int ip (py_str y) = Inr y"
    using py_int_py_str [OF four] by blast+
  have ib: "py_int ip (py_str b) = Inr b"
    using assms(2-4) by (rule py_int_py_str)
  have sp: "list_all (py_isspace ip) ws" and as: "list_all (\<lambda>c. c < 128) ws"
    using ws by (simp_all add: list_all_iff)
  have "list_all (\<lambda>c. c < 128) (frame_text x y b @ ws)"
    using as py_str_chars(3) by (simp add: frame_text_def)
  then have d: "decode_utf8 (encode (frame_text x y b @ ws)) =
      Inr (py_str x @ COMMA # py_str y @ COMMA # py_str b @ ws)"
    by (simp add: decode_encode frame_text_def)
  have ne: "frame_text x y b @ ws \<noteq> []"
    by (simp add: frame_text_def)
  from read_three_tokens [OF holding_waiting [OF ne] holding_readline d ix iy ib
      py_str_chars(2) py_str_chars(2) py_str_chars(2) py_str_chars(4) py_str_chars(5) sp rg]
  show ?thesis .
qed

lemma read_plus_fields:
  assumes rg: "0 \<le> x \<and> x \<le> 1023 \<and> 0 \<le> y \<and> y \<le> 1023"
    and "0 < k" and "k \<le> 640" and "\<bar>b\<bar> < 10 ^ k"
    and ws: "list_all (\<lambda>c. c < 128 \<and> py_isspace ip c) ws"
  shows "read_joystick_data ip (Some (holding (encode (PLUS # frame_text x y b @ ws))))
         = Some (x, y, b = 0)"
proof -
  have four: "(0::nat) < 4" "(4::nat) \<le> 640"
    by simp_all
  have "nat x < 10 ^ 4"
    using rg by (simp add: nat_less_iff)
  from py_int_str_nat(2) [OF four this, of ip]
  have ix: "py_int ip (PLUS # py_str x) = Inr x"
    using rg by (simp add: py_str_def)
  have "\<bar>y\<bar> < 10 ^ 4"
    using rg by simp
  then have iy: "py_int ip (py_str y) = Inr y"
    using py_int_py_str [OF four] by blast
  have ib: "py_int ip (py_str b) = Inr b"
    using assms(2-4) by (rule py_int_py_str)
  have cx: "COMMA \<notin> set (PLUS # py_str x)"
    using py_str_chars(2) by simp
  have hx: "\<not> py_isspace ip (hd (PLUS # py_str x))"
    by (simp add: py_isspace_def)
  have sp: "list_all (py_isspace ip) ws" and as: "list_all (\<lambda>c. c < 128) ws"
    using ws by (simp_all add: list_all_iff)
  have "list_all (\<lambda>c. c < 128) (PLUS # frame_text x y b @ ws)"
    using as py_str_chars(3) by (simp add: frame_text_def)
  then have d: "decode_utf8 (encode (PLUS # frame_text x y b @ ws)) =
      Inr ((PLUS # py_str x) @ COMMA # py_str y @ COMMA # py_str b @ ws)"
    by (simp add: decode_encode frame_text_def)
  have ne: "PLUS # frame_text x y b @ ws \<noteq> []"
    by simp
  from read_three_tokens [OF holding_waiting [OF ne] holding_readline d ix iy ib
      cx py_str_chars(2) py_str_chars(2) hx py_str_chars(5) sp rg]
  show ?thesis .
qed

lemma read_None_bad_line:
  assumes r: "readline p = Inr raw" and d: "decode_utf8 raw = Inr s"
    and bad: "length (tokens ip s) \<noteq> 3 \<or>
       (\<exists>t \<in> set (tokens ip s). py_int ip t = Inl ValueError) \<or>
       (\<exists>tx ty tb v. tokens ip s = [tx, ty, tb] \<and>
          (py_int ip tx = Inr v \<or> py_int ip ty = Inr v) \<and> (v < 0 \<or> 1023 < v))"
  shows "read_joystick_data ip (Some p) = None"
proof (cases "in_waiting p = 0")
  case True
  then show ?thesis by (rule read_without_data)
next
  case False
  then have w: "0 < in_waiting p" by simp
  show ?thesis
  proof (rule ccontr)
    assume "read_joystick_data ip (Some p) \<noteq> None"
    then obtain x y pressed where "read_joystick_data ip (Some p) = Some (x, y, pressed)"
      by (cases "read_joystick_data ip (Some p)") auto
    then obtain s' tx ty tb b where "decode_utf8 raw = Inr s'"
      and t': "py_split (py_strip ip s') COMMA = [tx, ty, tb]"
      and i: "py_int ip tx = Inr x" "py_int ip ty = Inr y" "py_int ip tb = Inr b"
      and rg: "0 \<le> x" "x \<le> 1023" "0 \<le> y" "y \<le> 1023"
      unfolding read_Some_iff [OF w r] by blast
    with d have t: "tokens ip s = [tx, ty, tb]"
      by (simp add: tokens_def)
    from bad show False
    proof (elim disjE)
      assume "length (tokens ip s) \<noteq> 3"
      with t show False by simp
    next
      assume "\<exists>t \<in> set (tokens ip s). py_int ip t = Inl ValueError"
      with t i show False by auto
    next
      assume "\<exists>tx ty tb v. tokens ip s = [tx, ty, tb] \<and>
          (py_int ip tx = Inr v \<or> py_int ip ty = Inr v) \<and> (v < 0 \<or> 1023 < v)"
      with t i rg show False by auto
    qed
  qed
qed

subsection \<open>Concrete lines\<close>

lemmas decoder_defs = read_joystick_data_def try_body_def decode_line_def except_clause_def
  holding_def decode_utf8_def continuation_def py_strip_def py_isspace_def py_int_def
  transform_decimal_and_space_def to_ascii_def c_isspace_def is_digit_def
  digit_or_underscore_def digits_value_def strip_sign_def tokens_def Let_def

lemmas cpython_defs = cpython_3_11_def unicode_space_14_def unicode_decimal_14_def
  decimal_runs_14_def

lemmas transition_defs = update_from_joystick_def Let_def JOYSTICK_CENTER_def JOYSTICK_MAX_def
  MOVEMENT_SPEED_def ROTATION_SPEED_def JUMP_HEIGHT_def py_mod_def

lemma line_612_512_1:
  "read_joystick_data ip (Some (holding ''612,512,1'')) = Some (612, 512, False)"
  by (simp add: decoder_defs)

lemma line_412_400_0:
  "read_joystick_data ip (Some (holding ''412,400,0'')) = Some (412, 400, True)"
  by (simp add: decoder_defs)

lemma line_5_5_7:
  "read_joystick_data ip (Some (holding ''5,5,7'')) = Some (5, 5, False)"
  by (simp add: decoder_defs)

lemma line_no_break_space:
  "read_joystick_data cpython_3_11 (Some (holding (''5,5,1'' @ [CHR 0xC2, CHR 0xA0])))
   = Some (5, 5, False)"
  by (simp add: decoder_defs cpython_defs)

lemma line_arabic_five:
  "read_joystick_data cpython_3_11 (Some (holding ([CHR 0xD9, CHR 0xA5] @ '',5,1'')))
   = Some (5, 5, False)"
  by (simp add: decoder_defs cpython_defs)

lemma tick1: "feed ip ModelController_init [''612,512,1''] =
  \<lparr>position = \<lparr>idx0 = 0.01953125, idx1 = 0, idx2 = 0\<rparr>, rotation = zero3, velocity = zero3\<rparr>"
  by (simp add: feed_def tick_def line_612_512_1 transition_defs ModelController_init_def zero3_def)

lemma tick2: "feed ip ModelController_init [''612,512,1'', ''612,512,1''] =
  \<lparr>position = \<lparr>idx0 = 0.0390625, idx1 = 0, idx2 = 0\<rparr>, rotation = zero3, velocity = zero3\<rparr>"
  by (simp add: feed_def tick_def line_612_512_1 transition_defs ModelController_init_def zero3_def)

lemma tick3: "feed ip ModelController_init [''612,512,1'', ''612,512,1'', ''412,400,0''] =
  \<lparr>position = \<lparr>idx0 = 0.01953125, idx1 = 0.2, idx2 = 0\<rparr>,
   rotation = \<lparr>idx0 = 0, idx1 = 359.5625, idx2 = 0\<rparr>, velocity = zero3\<rparr>"
  by (simp add: feed_def tick_def line_612_512_1 line_412_400_0 transition_defs
      ModelController_init_def zero3_def)

lemma char_of_plus: "char_of PLUS = CHR ''+''"
  by code_simp

lemma encode_plus: "CHR ''+'' # encode s = encode (PLUS # s)"
  by (simp add: encode_def char_of_plus)

subsection \<open>The call on a channel\<close>

lemma read_line_complete:
  assumes "CHR 0x0A \<in> set (buffer ch)"
  shows "\<exists>line rest. CHR 0x0A \<notin> set line \<and> buffer ch = line @ [CHR 0x0A] @ rest \<and>
     read_line ch = Returns (line @ [CHR 0x0A], \<lparr>buffer = rest, reads = reads ch + 1\<rparr>)"
proof -
  let ?line = "takeWhile (\<lambda>c. c \<noteq> CHR 0x0A) (buffer ch)"
  let ?tail = "dropWhile (\<lambda>c. c \<noteq> CHR 0x0A) (buffer ch)"
  have ne: "?tail \<noteq> []"
    using assms by auto
  then have "hd ?tail = CHR 0x0A"
    using hd_dropWhile [of "\<lambda>c. c \<noteq> CHR 0x0A" "buffer ch"] by simp
  with ne have t: "?tail = CHR 0x0A # tl ?tail"
    by (cases ?tail) simp_all
  have "buffer ch = ?line @ ?tail"
    by simp
  with t have b: "buffer ch = ?line @ [CHR 0x0A] @ tl ?tail"
    by simp
  have l: "CHR 0x0A \<notin> set ?line"
    by (auto dest: set_takeWhileD)
  have "ch\<lparr>buffer := tl ?tail, reads := reads ch + 1\<rparr> = \<lparr>buffer = tl ?tail, reads = reads ch + 1\<rparr>"
    by simp
  then have "read_line ch = Returns (?line @ [CHR 0x0A], \<lparr>buffer = tl ?tail, reads = reads ch + 1\<rparr>)"
    using assms by (simp add: read_line_def)
  with l b show ?thesis by blast
qed

lemma read_line_partial: "CHR 0x0A \<notin> set (buffer ch) \<Longrightarrow> read_line ch = Waits"
  by (simp add: read_line_def)

lemma st_without_port: "read_joystick_data_st ip None = Returns (None, None)"
  by (simp add: read_joystick_data_st_def)

lemma st_without_data:
  "bytes_available ch = 0 \<Longrightarrow> read_joystick_data_st ip (Some ch) = Returns (None, Some ch)"
  by (simp add: read_joystick_data_st_def)

lemma st_partial:
  assumes "buffer ch \<noteq> []" and "CHR 0x0A \<notin> set (buffer ch)"
  shows "read_joystick_data_st ip (Some ch) = Waits"
  using assms by (simp add: read_joystick_data_st_def bytes_available_def read_line_partial)

lemma st_complete:
  assumes "CHR 0x0A \<in> set (buffer ch)"
  shows "\<exists>line rest. CHR 0x0A \<notin> set line \<and> buffer ch = line @ [CHR 0x0A] @ rest \<and>
     read_joystick_data_st ip (Some ch) =
       Returns (read_joystick_data ip (Some (holding (line @ [CHR 0x0A]))),
                Some \<lparr>buffer = rest, reads = reads ch + 1\<rparr>)"
proof -
  from read_line_complete [OF assms] obtain line rest
    where l: "CHR 0x0A \<notin> set line" and b: "buffer ch = line @ [CHR 0x0A] @ rest"
      and r: "read_line ch = Returns (line @ [CHR 0x0A], \<lparr>buffer = rest, reads = reads ch + 1\<rparr>)"
    by blast
  have "read_joystick_data ip (Some (holding (line @ [CHR 0x0A])))
        = except_clause (decode_line ip (line @ [CHR 0x0A]))"
    by (simp add: read_joystick_data_def try_body_def holding_def)
  moreover have "bytes_available ch \<noteq> 0"
    using b by (simp add: bytes_available_def)
  ultimately have "read_joystick_data_st ip (Some ch) =
       Returns (read_joystick_data ip (Some (holding (line @ [CHR 0x0A]))),
                Some \<lparr>buffer = rest, reads = reads ch + 1\<rparr>)"
    using r by (simp add: read_joystick_data_st_def)
  with l b show ?thesis by blast
qed

lemma st_reads:
  assumes "read_joystick_data_st ip (Some ch) = Returns (result, Some ch')"
  shows "reads ch' \<le> reads ch + 1"
proof (cases "bytes_available ch = 0")
  case True
  with assms show ?thesis by (simp add: st_without_data)
next
  case False
  show ?thesis
  proof (cases "CHR 0x0A \<in> set (buffer ch)")
    case True
    from st_complete [OF True, of ip] assms show ?thesis by auto
  next
    case no: False
    have "buffer ch \<noteq> []"
      using False by (simp add: bytes_available_def)
    from st_partial [OF this no, of ip] assms show ?thesis by simp
  qed
qed

section \<open>The claims about the state transition\<close>

text \<open>
  Claim C1, as amended. Called with no sample (\<^verbatim>\<open>joystick_data is None\<close>), the state
  transition returns at once and leaves the whole state as it was: \<open>position.x\<close> and
  \<open>rotation.yaw\<close> are unchanged, and so is \<open>position.y\<close>. No vertical step runs, so no
  gravity is applied on a tick without a sample.
\<close>

theorem no_sample_keeps_state:
  "update_from_joystick self None = self"
  by (simp add: update_from_joystick_def)

text \<open>
  Claim C1 as stated fails: in the state \<open>airborne\<close> (\<open>position.y = 1 > 0\<close>) a tick
  without a sample does not lower \<open>position.y\<close> to \<open>max 0 (1 - 0.05) = 0.95\<close>; it
  stays 1.
\<close>

theorem no_sample_gravity_counterexample:
  "0 < idx1 (position airborne) \<and>
   idx1 (position (update_from_joystick airborne None)) = 1 \<and>
   idx1 (position (update_from_joystick airborne None))
     \<noteq> max 0 (idx1 (position airborne) - 0.05)"
  by (simp add: update_from_joystick_def airborne_def)

text \<open>
  Claim C5. In every state reached from \<^verbatim>\<open>__init__\<close> (where yaw is 0) by any sequence
  of ticks, and for every optional sample, \<open>rotation.yaw\<close> after the state transition
  lies in \<open>[0, 360)\<close>: the update wraps and never leaves a negative value. From yaw 359 a
  step of +2 degrees (\<open>y_axis = 1024\<close>, so that the normalised value is 1) yields 1.
\<close>

theorem yaw_wraps:
  "(0 \<le> idx1 (rotation (update_from_joystick (run ModelController_init ds) d)) \<and>
    idx1 (rotation (update_from_joystick (run ModelController_init ds) d)) < 360) \<and>
   idx1 (rotation (update_from_joystick
      (self\<lparr>rotation := (rotation self)\<lparr>idx1 := 359\<rparr>\<rparr>) (Some (x_axis, 1024, b)))) = 1"
proof
  show "0 \<le> idx1 (rotation (update_from_joystick (run ModelController_init ds) d)) \<and>
    idx1 (rotation (update_from_joystick (run ModelController_init ds) d)) < 360"
    using yaw_run [of "ds @ [d]"] by (simp only: run_snoc)
next
  have "py_mod 361 360 = 1"
    by (simp add: py_mod_def)
  then show "idx1 (rotation (update_from_joystick
      (self\<lparr>rotation := (rotation self)\<lparr>idx1 := 359\<rparr>\<rparr>) (Some (x_axis, 1024, b)))) = 1"
    by (simp add: update_from_joystick_def Let_def JOYSTICK_CENTER_def JOYSTICK_MAX_def
        ROTATION_SPEED_def)
qed

text \<open>
  Claim C6. If \<open>position.y \<ge> 0\<close> before the state transition then \<open>position.y \<ge> 0\<close>
  after it, for every optional sample: the fall step is clamped at 0. From \<open>y = 0.03\<close>
  a tick whose sample has the button released yields \<open>y = 0\<close>, not \<open>-0.02\<close>.
\<close>

theorem gravity_floor:
  assumes "0 \<le> idx1 (position self)"
  shows "0 \<le> idx1 (position (update_from_joystick self d)) \<and>
         idx1 (position (update_from_joystick
           (other\<lparr>position := (position other)\<lparr>idx1 := 0.03\<rparr>\<rparr>)
           (Some (x_axis, y_axis, False)))) = 0"
proof
  show "0 \<le> idx1 (position (update_from_joystick self d))"
    using assms
    by (cases d)
      (simp_all add: update_from_joystick_def Let_def JUMP_HEIGHT_def split: prod.splits)
next
  show "idx1 (position (update_from_joystick
           (other\<lparr>position := (position other)\<lparr>idx1 := 0.03\<rparr>\<rparr>)
           (Some (x_axis, y_axis, False)))) = 0"
    by (simp add: update_from_joystick_def Let_def)
qed

theorem gravity_floor_witness:
  "0 \<le> idx1 (position ModelController_init) \<and>
   0 \<le> idx1 (position (update_from_joystick ModelController_init (Some (512, 512, False)))) \<and>
   idx1 (position (update_from_joystick
     (airborne\<lparr>position := (position airborne)\<lparr>idx1 := 0.03\<rparr>\<rparr>)
     (Some (512, 512, False)))) = 0"
proof -
  have h: "0 \<le> idx1 (position ModelController_init)"
    by (simp add: ModelController_init_def zero3_def)
  show ?thesis
    using h gravity_floor [OF h, of "Some (512, 512, False)" airborne 512 512] by simp
qed

text \<open>
  Claim C7. For every state and every sample whose x axis lies in the deadzone,
  \<open>|x - 512| / 512 < 0.1\<close>, the state transition leaves \<open>position.x\<close> unchanged,
  whatever the sample's button state.
\<close>

theorem deadzone_keeps_x:
  assumes "\<bar>real_of_int (x_axis - 512)\<bar> / 512 < 0.1"
  shows "idx0 (position (update_from_joystick self (Some (x_axis, y_axis, button_pressed))))
         = idx0 (position self)"
  using assms
  by (simp add: update_from_joystick_def Let_def JOYSTICK_CENTER_def JOYSTICK_MAX_def)

theorem deadzone_keeps_x_witness:
  "\<bar>real_of_int (540 - 512)\<bar> / 512 < (0.1::real) \<and>
   idx0 (position (update_from_joystick airborne (Some (540, 900, True))))
     = idx0 (position airborne)"
proof -
  have h: "\<bar>real_of_int (540 - 512)\<bar> / 512 < (0.1::real)"
    by simp
  show ?thesis
    using h deadzone_keeps_x [OF h, of airborne 900 True] by simp
qed

text \<open>
  Claim C8, as amended. Three consecutive ticks, each with a sample whose button is
  pressed, starting from \<open>position.y = 0\<close> and with \<open>JUMP_HEIGHT = 0.2\<close>, yield
  \<open>position.y = 0.6\<close> up to rounding: in the binary64 arithmetic of the program the
  value is \<open>5404319552844596 / 2\<^sup>5\<^sup>3\<close>, which prints as 0.6000000000000001 and is
  within \<open>10\<^sup>-\<^sup>1\<^sup>5\<close> of 0.6; in exact arithmetic it is 0.6. There is no grounded
  check: a tick with the button pressed replaces \<open>position.y\<close> by the rounded sum of
  \<open>position.y\<close> and \<open>JUMP_HEIGHT\<close> at every height, and in exact arithmetic any
  number \<open>n\<close> of such ticks adds \<open>n * JUMP_HEIGHT\<close>.
\<close>

theorem jump_accumulates:
  "(idx1 (position self) = 0 \<longrightarrow>
      idx1 (position (run_fl b64 self
        [Some (x1, y1, True), Some (x2, y2, True), Some (x3, y3, True)]))
      = 5404319552844596 / 2 ^ 53 \<and>
      idx1 (position (run self
        [Some (x1, y1, True), Some (x2, y2, True), Some (x3, y3, True)])) = 0.6) \<and>
   \<bar>5404319552844596 / 2 ^ 53 - 0.6\<bar> < (1 / 10 ^ 15 :: real) \<and>
   JUMP_HEIGHT = 0.2 \<and>
   idx1 (position (update_from_joystick_fl b64 self (Some (x_axis, y_axis, True))))
     = b64 (idx1 (position self) + b64 JUMP_HEIGHT) \<and>
   (list_all (\<lambda>(x_axis, y_axis, button_pressed). button_pressed) ds \<longrightarrow>
      idx1 (position (run self (map Some ds))) =
      idx1 (position self) + JUMP_HEIGHT * real (length ds)) \<and>
   update_from_joystick_fl (\<lambda>v. v) self d = update_from_joystick self d"
proof (intro conjI impI)
  assume z: "idx1 (position self) = 0"
  then show "idx1 (position (run_fl b64 self
        [Some (x1, y1, True), Some (x2, y2, True), Some (x3, y3, True)]))
      = 5404319552844596 / 2 ^ 53"
    by (rule three_jumps_fl)
  from z show "idx1 (position (run self
        [Some (x1, y1, True), Some (x2, y2, True), Some (x3, y3, True)])) = 0.6"
    using held_button_height [of "[(x1, y1, True), (x2, y2, True), (x3, y3, True)]" self]
    by (simp add: JUMP_HEIGHT_def)
next
  show "\<bar>5404319552844596 / 2 ^ 53 - 0.6\<bar> < (1 / 10 ^ 15 :: real)"
    by simp
next
  show "JUMP_HEIGHT = 0.2"
    by (simp add: JUMP_HEIGHT_def)
next
  show "idx1 (position (update_from_joystick_fl b64 self (Some (x_axis, y_axis, True))))
     = b64 (idx1 (position self) + b64 JUMP_HEIGHT)"
    by (rule update_fl_pressed_y)
next
  assume "list_all (\<lambda>(x_axis, y_axis, button_pressed). button_pressed) ds"
  then show "idx1 (position (run self (map Some ds))) =
      idx1 (position self) + JUMP_HEIGHT * real (length ds)"
    by (rule held_button_height)
next
  show "update_from_joystick_fl (\<lambda>v. v) self d = update_from_joystick self d"
    by (rule update_exact)
qed

theorem jump_accumulates_witness:
  "idx1 (position ModelController_init) = 0 \<and>
   idx1 (position (run_fl b64 ModelController_init
     [Some (512, 512, True), Some (512, 512, True), Some (512, 512, True)]))
     = 5404319552844596 / 2 ^ 53 \<and>
   idx1 (position (run ModelController_init
     [Some (512, 512, True), Some (512, 512, True), Some (512, 512, True)])) = 0.6 \<and>
   list_all (\<lambda>(x_axis, y_axis, button_pressed). button_pressed)
     [(512::int, 512::int, True), (512, 512, True), (512, 512, True), (512, 512, True)] \<and>
   idx1 (position (run ModelController_init
     (map Some [(512, 512, True), (512, 512, True), (512, 512, True), (512, 512, True)])))
     = 0.8"
proof -
  have h: "idx1 (position ModelController_init) = 0"
    by (simp add: ModelController_init_def zero3_def)
  have p: "list_all (\<lambda>(x_axis, y_axis, button_pressed). button_pressed)
     [(512, 512, True), (512, 512, True), (512, 512, True), (512::int, 512::int, True)]"
    by simp
  note T = jump_accumulates [where self = ModelController_init and ?x1.0 = 512 and ?y1.0 = 512
      and ?x2.0 = 512 and ?y2.0 = 512 and ?x3.0 = 512 and ?y3.0 = 512
      and ds = "[(512, 512, True), (512, 512, True), (512, 512, True), (512, 512, True)]"]
  have a: "idx1 (position (run_fl b64 ModelController_init
     [Some (512, 512, True), Some (512, 512, True), Some (512, 512, True)]))
     = 5404319552844596 / 2 ^ 53"
    using T h by blast
  have b: "idx1 (position (run ModelController_init
     [Some (512, 512, True), Some (512, 512, True), Some (512, 512, True)])) = 0.6"
    using T h by blast
  have "idx1 (position (run ModelController_init
     (map Some [(512, 512, True), (512, 512, True), (512, 512, True), (512, 512, True)])))
     = idx1 (position ModelController_init) + JUMP_HEIGHT
        * real (length [(512::int, 512::int, True), (512, 512, True), (512, 512, True), (512, 512, True)])"
    using T p by blast
  then have c: "idx1 (position (run ModelController_init
     (map Some [(512, 512, True), (512, 512, True), (512, 512, True), (512, 512, True)])))
     = 0.8"
    using h by (simp add: JUMP_HEIGHT_def)
  from h a b p c show ?thesis
    by (intro conjI)
qed

text \<open>
  Claim C8 as stated fails: in the arithmetic of the program the three additions do not
  give 0.6, neither the number nor the float that the literal \<^verbatim>\<open>0.6\<close> denotes.
\<close>

theorem jump_accumulates_counterexample:
  "idx1 (position (run_fl b64 ModelController_init
     [Some (512, 512, True), Some (512, 512, True), Some (512, 512, True)])) \<noteq> 0.6 \<and>
   idx1 (position (run_fl b64 ModelController_init
     [Some (512, 512, True), Some (512, 512, True), Some (512, 512, True)])) \<noteq> b64 0.6"
proof -
  have z: "idx1 (position ModelController_init) = 0"
    by (simp add: ModelController_init_def zero3_def)
  have "b64 0.6 = 5404319552844595 / 2 ^ 53"
    using b64_three_fifths by simp
  then show ?thesis
    by (simp add: three_jumps_fl [OF z])
qed

text \<open>
  Claim C9. For every state and every optional sample the state transition changes at
  most \<open>position.x\<close>, \<open>position.y\<close> and \<open>rotation.yaw\<close>: \<open>position.z\<close>,
  \<open>rotation.pitch\<close>, \<open>rotation.roll\<close> and the three components of \<open>velocity\<close> are
  the same after the call as before.
\<close>

theorem transition_frame:
  "idx2 (position (update_from_joystick self d)) = idx2 (position self) \<and>
   idx0 (rotation (update_from_joystick self d)) = idx0 (rotation self) \<and>
   idx2 (rotation (update_from_joystick self d)) = idx2 (rotation self) \<and>
   idx0 (velocity (update_from_joystick self d)) = idx0 (velocity self) \<and>
   idx1 (velocity (update_from_joystick self d)) = idx1 (velocity self) \<and>
   idx2 (velocity (update_from_joystick self d)) = idx2 (velocity self)"
  using update_frame [of self d] by simp

section \<open>The claims about the decoder\<close>

text \<open>
  Claim C2, as amended. From the state of \<^verbatim>\<open>__init__\<close>, three consecutive ticks that
  find the lines \<^verbatim>\<open>612,512,1\<close>, \<^verbatim>\<open>612,512,1\<close> and \<^verbatim>\<open>412,400,0\<close> give: after tick 1
  \<open>position.x = 0.01953125\<close> (that is \<open>100 / 512 * 0.1\<close>) and \<open>position.y = 0\<close>, since
  the button field 1 means released and on the ground there is nothing to fall; after
  tick 2 \<open>position.x = 0.0390625\<close> and \<open>position.y = 0\<close>; after tick 3
  \<open>position.x = 0.01953125\<close> (a step of \<open>-0.01953125\<close>) and, the button field 0 meaning
  pressed, \<open>position.y = 0.2\<close>.
\<close>

theorem frame_stream:
  "idx0 (position (feed ip ModelController_init [''612,512,1''])) = 0.01953125 \<and>
   idx1 (position (feed ip ModelController_init [''612,512,1''])) = 0 \<and>
   idx0 (position (feed ip ModelController_init [''612,512,1'', ''612,512,1''])) = 0.0390625 \<and>
   idx1 (position (feed ip ModelController_init [''612,512,1'', ''612,512,1''])) = 0 \<and>
   idx0 (position (feed ip ModelController_init
     [''612,512,1'', ''612,512,1'', ''412,400,0''])) = 0.01953125 \<and>
   idx1 (position (feed ip ModelController_init
     [''612,512,1'', ''612,512,1'', ''412,400,0''])) = 0.2"
  by (simp add: tick1 tick2 tick3)

text \<open>
  Claim C2 as stated fails: after tick 1 \<open>position.y\<close> is 0, not 0.2, and
  \<open>position.x\<close> is not 0.0195; after tick 3 \<open>position.y\<close> is not 0.35.
\<close>

theorem frame_stream_counterexample:
  "idx1 (position (feed cpython_3_11 ModelController_init [''612,512,1''])) = 0 \<and>
   idx1 (position (feed cpython_3_11 ModelController_init [''612,512,1''])) \<noteq> 0.2 \<and>
   idx0 (position (feed cpython_3_11 ModelController_init [''612,512,1''])) \<noteq> 0.0195 \<and>
   idx1 (position (feed cpython_3_11 ModelController_init
     [''612,512,1'', ''612,512,1'', ''412,400,0''])) \<noteq> 0.35"
  by (simp add: tick1 tick3)

text \<open>
  Claim C3, as amended. When data is waiting, the decoder yields the sample
  \<open>(x, y, pressed)\<close> exactly when the line decodes as UTF-8 and the stripped text
  splits at commas into three tokens that \<^verbatim>\<open>int\<close> accepts, with the values \<open>x\<close> and
  \<open>y\<close> of the first two in \<open>[0, 1023]\<close> and \<open>pressed\<close> true exactly when the third
  value is 0; every other line is dropped. The button may be any integer: a frame
  \<^verbatim>\<open>"{x},{y},{b}\n"\<close> with \<open>x\<close> and \<open>y\<close> in range is decoded for every \<open>b\<close> of up
  to 640 digits, not only for 0 and 1, and so is the same frame with a plus sign in
  front of \<open>x\<close>.
\<close>

theorem decoder_accepts:
  "(0 < in_waiting p \<and> readline p = Inr raw \<longrightarrow>
      (read_joystick_data ip (Some p) = Some (x, y, pressed) \<longleftrightarrow>
         (\<exists>s tx ty tb b. decode_utf8 raw = Inr s \<and> tokens ip s = [tx, ty, tb] \<and>
            py_int ip tx = Inr x \<and> py_int ip ty = Inr y \<and> py_int ip tb = Inr b \<and>
            0 \<le> x \<and> x \<le> 1023 \<and> 0 \<le> y \<and> y \<le> 1023 \<and> pressed = (b = 0)))) \<and>
   (0 \<le> x' \<and> x' \<le> 1023 \<and> 0 \<le> y' \<and> y' \<le> 1023 \<and> 0 < k \<and> k \<le> 640 \<and> \<bar>b'\<bar> < 10 ^ k \<longrightarrow>
      read_joystick_data ip (Some (holding (frame x' y' b'))) = Some (x', y', b' = 0) \<and>
      read_joystick_data ip (Some (holding (CHR ''+'' # frame x' y' b'))) = Some (x', y', b' = 0))"
proof (intro conjI impI)
  assume "0 < in_waiting p \<and> readline p = Inr raw"
  then have w: "0 < in_waiting p" and r: "readline p = Inr raw"
    by simp_all
  show "read_joystick_data ip (Some p) = Some (x, y, pressed) \<longleftrightarrow>
         (\<exists>s tx ty tb b. decode_utf8 raw = Inr s \<and> tokens ip s = [tx, ty, tb] \<and>
            py_int ip tx = Inr x \<and> py_int ip ty = Inr y \<and> py_int ip tb = Inr b \<and>
            0 \<le> x \<and> x \<le> 1023 \<and> 0 \<le> y \<and> y \<le> 1023 \<and> pressed = (b = 0))"
    unfolding tokens_def by (rule read_Some_iff [OF w r])
next
  assume h: "0 \<le> x' \<and> x' \<le> 1023 \<and> 0 \<le> y' \<and> y' \<le> 1023 \<and> 0 < k \<and> k \<le> 640 \<and> \<bar>b'\<bar> < 10 ^ k"
  then have rg: "0 \<le> x' \<and> x' \<le> 1023 \<and> 0 \<le> y' \<and> y' \<le> 1023"
    and k: "0 < k" "k \<le> 640" and b: "\<bar>b'\<bar> < 10 ^ k"
    by simp_all
  have lf: "list_all (\<lambda>c. c < 128 \<and> py_isspace ip c) [LINE_FEED]"
    by (simp add: py_isspace_def)
  from read_fields [OF rg k b lf]
  show "read_joystick_data ip (Some (holding (frame x' y' b'))) = Some (x', y', b' = 0)"
    by (simp add: frame_def)
  from read_plus_fields [OF rg k b lf]
  show "read_joystick_data ip (Some (holding (CHR ''+'' # frame x' y' b'))) = Some (x', y', b' = 0)"
    by (simp add: frame_def encode_plus)
qed

theorem decoder_accepts_witness:
  "0 < in_waiting (holding ''5,5,7'') \<and> readline (holding ''5,5,7'') = Inr ''5,5,7'' \<and>
   (\<exists>s tx ty tb b. decode_utf8 ''5,5,7'' = Inr s \<and> tokens cpython_3_11 s = [tx, ty, tb] \<and>
      py_int cpython_3_11 tx = Inr 5 \<and> py_int cpython_3_11 ty = Inr 5 \<and>
      py_int cpython_3_11 tb = Inr b \<and> b \<noteq> 0) \<and>
   (0::nat) < 1 \<and> (1::nat) \<le> 640 \<and> \<bar>7::int\<bar> < 10 ^ 1 \<and>
   frame 5 5 7 = ''5,5,7'' @ [CHR 0x0A] \<and>
   read_joystick_data cpython_3_11 (Some (holding (frame 5 5 7))) = Some (5, 5, False) \<and>
   read_joystick_data cpython_3_11 (Some (holding (CHR ''+'' # frame 5 5 7))) = Some (5, 5, False)"
proof -
  have w: "0 < in_waiting (holding ''5,5,7'')" and r: "readline (holding ''5,5,7'') = Inr ''5,5,7''"
    by (simp_all add: holding_def)
  have f: "frame 5 5 7 = ''5,5,7'' @ [CHR 0x0A]"
    by code_simp
  have k: "(0::nat) < 1" "(1::nat) \<le> 640" "\<bar>7::int\<bar> < 10 ^ 1"
    by simp_all
  note T = decoder_accepts [where p = "holding ''5,5,7''" and raw = "''5,5,7''"
      and ip = cpython_3_11 and x = 5 and y = 5 and pressed = False
      and x' = 5 and y' = 5 and b' = 7 and k = 1]
  have "\<exists>s tx ty tb b. decode_utf8 ''5,5,7'' = Inr s \<and> tokens cpython_3_11 s = [tx, ty, tb] \<and>
      py_int cpython_3_11 tx = Inr 5 \<and> py_int cpython_3_11 ty = Inr 5 \<and>
      py_int cpython_3_11 tb = Inr b \<and>
      (0::int) \<le> 5 \<and> (5::int) \<le> 1023 \<and> (0::int) \<le> 5 \<and> (5::int) \<le> 1023 \<and> False = (b = 0)"
    using T w r line_5_5_7 [of cpython_3_11] by blast
  then have e: "\<exists>s tx ty tb b. decode_utf8 ''5,5,7'' = Inr s \<and>
      tokens cpython_3_11 s = [tx, ty, tb] \<and>
      py_int cpython_3_11 tx = Inr 5 \<and> py_int cpython_3_11 ty = Inr 5 \<and>
      py_int cpython_3_11 tb = Inr b \<and> b \<noteq> 0"
    by blast
  have "read_joystick_data cpython_3_11 (Some (holding (frame 5 5 7))) = Some (5, 5, False) \<and>
    read_joystick_data cpython_3_11 (Some (holding (CHR ''+'' # frame 5 5 7))) = Some (5, 5, False)"
    using T by simp
  with w r e k f show ?thesis
    by (intro conjI) simp_all
qed

text \<open>
  Claim C3 as stated fails: a line whose button is 7 or \<open>-2\<close>, and a line whose tokens
  carry a plus sign, are decoded to a sample, not dropped; so is a line that ends in a
  no-break space (bytes \<open>C2 A0\<close>) and one whose first number is the Arabic-Indic digit
  five (bytes \<open>D9 A5\<close>).
\<close>

theorem decoder_accepts_counterexample:
  "read_joystick_data cpython_3_11 (Some (holding ''5,5,7'')) = Some (5, 5, False) \<and>
   read_joystick_data cpython_3_11 (Some (holding ''+5,+5,1'')) = Some (5, 5, False) \<and>
   read_joystick_data cpython_3_11 (Some (holding ''5,5,-2'')) = Some (5, 5, False) \<and>
   read_joystick_data cpython_3_11 (Some (holding (''5,5,1'' @ [CHR 0xC2, CHR 0xA0])))
     = Some (5, 5, False) \<and>
   read_joystick_data cpython_3_11 (Some (holding ([CHR 0xD9, CHR 0xA5] @ '',5,1'')))
     = Some (5, 5, False)"
  by (simp add: decoder_defs cpython_defs)

text \<open>
  Claim C4. For all integers \<open>x\<close> and \<open>y\<close> in \<open>[0, 1023]\<close> and \<open>b\<close> in \<open>{0, 1}\<close>, the
  line \<^verbatim>\<open>"{x},{y},{b}"\<close>, with or without the line feed, decodes to the sample
  \<open>(x, y, b = 0)\<close>. A line whose text has a number of tokens other than three, or a
  token which \<^verbatim>\<open>int\<close> rejects, or an \<open>x\<close> or \<open>y\<close> value outside \<open>[0, 1023]\<close>, decodes
  to \<^verbatim>\<open>None\<close>. So does every line for which \<^verbatim>\<open>readline\<close> or the UTF-8 decoding
  raises: each exception is caught inside the function, none is raised to the caller.
\<close>

theorem decode_frame:
  "(0 \<le> x \<and> x \<le> 1023 \<and> 0 \<le> y \<and> y \<le> 1023 \<and> (b = 0 \<or> b = 1) \<longrightarrow>
      read_joystick_data ip (Some (holding (encode (frame_text x y b)))) = Some (x, y, b = 0) \<and>
      read_joystick_data ip (Some (holding (frame x y b))) = Some (x, y, b = 0)) \<and>
   (readline p = Inr raw \<and> decode_utf8 raw = Inr s \<and>
      (length (tokens ip s) \<noteq> 3 \<or>
       (\<exists>t \<in> set (tokens ip s). py_int ip t = Inl ValueError) \<or>
       (\<exists>tx ty tb v. tokens ip s = [tx, ty, tb] \<and>
          (py_int ip tx = Inr v \<or> py_int ip ty = Inr v) \<and> (v < 0 \<or> 1023 < v))) \<longrightarrow>
      read_joystick_data ip (Some p) = None) \<and>
   (readline q = Inl e \<or> (readline q = Inr bytes \<and> decode_utf8 bytes = Inl e) \<longrightarrow>
      read_joystick_data ip (Some q) = None)"
proof (intro conjI impI)
  assume "readline q = Inl e \<or> (readline q = Inr bytes \<and> decode_utf8 bytes = Inl e)"
  then show "read_joystick_data ip (Some q) = None"
    by (rule read_caught)
next
  assume h: "0 \<le> x \<and> x \<le> 1023 \<and> 0 \<le> y \<and> y \<le> 1023 \<and> (b = 0 \<or> b = 1)"
  then have rg: "0 \<le> x \<and> x \<le> 1023 \<and> 0 \<le> y \<and> y \<le> 1023" and b: "\<bar>b\<bar> < 10 ^ 1"
    by auto
  have one: "(0::nat) < 1" "(1::nat) \<le> 640"
    by simp_all
  have nil: "list_all (\<lambda>c. c < 128 \<and> py_isspace ip c) []"
    and lf: "list_all (\<lambda>c. c < 128 \<and> py_isspace ip c) [LINE_FEED]"
    by (simp_all add: py_isspace_def)
  from read_fields [OF rg one b nil]
  show "read_joystick_data ip (Some (holding (encode (frame_text x y b)))) = Some (x, y, b = 0)"
    by simp
  from read_fields [OF rg one b lf]
  show "read_joystick_data ip (Some (holding (frame x y b))) = Some (x, y, b = 0)"
    by (simp add: frame_def)
next
  assume "readline p = Inr raw \<and> decode_utf8 raw = Inr s \<and>
      (length (tokens ip s) \<noteq> 3 \<or>
       (\<exists>t \<in> set (tokens ip s). py_int ip t = Inl ValueError) \<or>
       (\<exists>tx ty tb v. tokens ip s = [tx, ty, tb] \<and>
          (py_int ip tx = Inr v \<or> py_int ip ty = Inr v) \<and> (v < 0 \<or> 1023 < v)))"
  then show "read_joystick_data ip (Some p) = None"
    using read_None_bad_line [of p raw s ip] by blast
qed

theorem decode_frame_witness:
  "read_joystick_data cpython_3_11 (Some (holding (frame 612 512 1))) = Some (612, 512, False) \<and>
   frame 612 512 1 = ''612,512,1'' @ [CHR 0x0A] \<and>
   decode_utf8 ''5,5'' = Inr [53, COMMA, 53] \<and>
   tokens cpython_3_11 [53, COMMA, 53] = [[53], [53]] \<and>
   read_joystick_data cpython_3_11 (Some (holding ''5,5'')) = None \<and>
   decode_utf8 ([CHR 0xC3, CHR 0xA9] @ '',5,1'') = Inr [233, COMMA, 53, COMMA, 49] \<and>
   tokens cpython_3_11 [233, COMMA, 53, COMMA, 49] = [[233], [53], [49]] \<and>
   py_int cpython_3_11 [233] = Inl ValueError \<and>
   read_joystick_data cpython_3_11 (Some (holding ([CHR 0xC3, CHR 0xA9] @ '',5,1''))) = None \<and>
   decode_utf8 ''1024,5,1'' = Inr [49, 48, 50, 52, COMMA, 53, COMMA, 49] \<and>
   tokens cpython_3_11 [49, 48, 50, 52, COMMA, 53, COMMA, 49] = [[49, 48, 50, 52], [53], [49]] \<and>
   py_int cpython_3_11 [49, 48, 50, 52] = Inr 1024 \<and>
   read_joystick_data cpython_3_11 (Some (holding ''1024,5,1'')) = None \<and>
   decode_utf8 [CHR 0xFF] = Inl UnicodeDecodeError \<and>
   read_joystick_data cpython_3_11 (Some (holding [CHR 0xFF])) = None \<and>
   read_joystick_data cpython_3_11 (Some \<lparr>in_waiting = 4, readline = Inl SerialException\<rparr>) = None"
proof -
  have f: "frame 612 512 1 = ''612,512,1'' @ [CHR 0x0A]"
    by code_simp
  have d1: "decode_utf8 ''5,5'' = Inr [53, COMMA, 53]"
    and d2: "decode_utf8 ([CHR 0xC3, CHR 0xA9] @ '',5,1'') = Inr [233, COMMA, 53, COMMA, 49]"
    and d3: "decode_utf8 ''1024,5,1'' = Inr [49, 48, 50, 52, COMMA, 53, COMMA, 49]"
    and d4: "decode_utf8 [CHR 0xFF] = Inl UnicodeDecodeError"
    by (simp_all add: decode_utf8_def continuation_def)
  have t1: "tokens cpython_3_11 [53, COMMA, 53] = [[53], [53]]"
    and t2: "tokens cpython_3_11 [233, COMMA, 53, COMMA, 49] = [[233], [53], [49]]"
    and t3: "tokens cpython_3_11 [49, 48, 50, 52, COMMA, 53, COMMA, 49]
             = [[49, 48, 50, 52], [53], [49]]"
    by (simp_all add: decoder_defs cpython_defs)
  have i2: "py_int cpython_3_11 [233] = Inl ValueError"
    and i3: "py_int cpython_3_11 [49, 48, 50, 52] = Inr 1024"
    by (simp_all add: decoder_defs cpython_defs)
  have h: "readline (holding raw) = Inr raw" for raw
    by (simp add: holding_def)
  have ok: "read_joystick_data cpython_3_11 (Some (holding (frame 612 512 1)))
            = Some (612, 512, False)"
    using decode_frame [where x = 612 and y = 512 and b = 1 and ip = cpython_3_11] by simp
  have "length (tokens cpython_3_11 [53, COMMA, 53]) \<noteq> 3"
    using t1 by simp
  then have n1: "read_joystick_data cpython_3_11 (Some (holding ''5,5'')) = None"
    using decode_frame [where p = "holding ''5,5''" and raw = "''5,5''" and ip = cpython_3_11
        and s = "[53, COMMA, 53]"] h [of "''5,5''"] d1
    by blast
  have "\<exists>t \<in> set (tokens cpython_3_11 [233, COMMA, 53, COMMA, 49]).
          py_int cpython_3_11 t = Inl ValueError"
    using t2 i2 by simp
  then have n2: "read_joystick_data cpython_3_11
      (Some (holding ([CHR 0xC3, CHR 0xA9] @ '',5,1''))) = None"
    using decode_frame [where p = "holding ([CHR 0xC3, CHR 0xA9] @ '',5,1'')"
        and raw = "[CHR 0xC3, CHR 0xA9] @ '',5,1''" and ip = cpython_3_11
        and s = "[233, COMMA, 53, COMMA, 49]"] h [of "[CHR 0xC3, CHR 0xA9] @ '',5,1''"] d2
    by blast
  have "py_int cpython_3_11 [49, 48, 50, 52] = Inr 1024 \<and> (1023::int) < 1024"
    using i3 by simp
  then have "\<exists>tx ty tb v. tokens cpython_3_11 [49, 48, 50, 52, COMMA, 53, COMMA, 49] = [tx, ty, tb] \<and>
      (py_int cpython_3_11 tx = Inr v \<or> py_int cpython_3_11 ty = Inr v) \<and> (v < 0 \<or> 1023 < v)"
    using t3 by blast
  then have n3: "read_joystick_data cpython_3_11 (Some (holding ''1024,5,1'')) = None"
    using decode_frame [where p = "holding ''1024,5,1''" and raw = "''1024,5,1''"
        and ip = cpython_3_11 and s = "[49, 48, 50, 52, COMMA, 53, COMMA, 49]"]
      h [of "''1024,5,1''"] d3
    by blast
  have n4: "read_joystick_data cpython_3_11 (Some (holding [CHR 0xFF])) = None"
    using decode_frame [where q = "holding [CHR 0xFF]" and bytes = "[CHR 0xFF]"
        and ip = cpython_3_11 and e = UnicodeDecodeError] h [of "[CHR 0xFF]"] d4
    by blast
  have n5: "read_joystick_data cpython_3_11
      (Some \<lparr>in_waiting = 4, readline = Inl SerialException\<rparr>) = None"
    using decode_frame [where q = "\<lparr>in_waiting = 4, readline = Inl SerialException\<rparr>"
        and ip = cpython_3_11 and e = SerialException]
    by simp
  from ok f d1 t1 n1 d2 t2 i2 n2 d3 t3 i3 n3 d4 n4 n5 show ?thesis
    by (intro conjI)
qed

section \<open>The claim about the serial channel\<close>

text \<open>
  Claim C10, as amended. A call made without a channel, or when the channel has no
  buffered data, returns \<^verbatim>\<open>None\<close> at once: it reads nothing and leaves the channel as
  it is. A call made when the buffer holds a complete line reads once, takes exactly
  that line (the bytes up to and including the first line feed) from the buffer,
  leaves the rest, and returns what the decoder makes of the line. No call reads more
  than once: there is no retry. But a call made when the buffer holds only the
  beginning of a line, with no line feed yet, does wait for bytes: its one read does
  not return with the bytes received so far.
\<close>

theorem poll_channel:
  "read_joystick_data_st ip None = Returns (None, None) \<and>
   (bytes_available ch = 0 \<longrightarrow> read_joystick_data_st ip (Some ch) = Returns (None, Some ch)) \<and>
   (CHR 0x0A \<in> set (buffer ch) \<longrightarrow>
      (\<exists>line rest. CHR 0x0A \<notin> set line \<and> buffer ch = line @ [CHR 0x0A] @ rest \<and>
         read_joystick_data_st ip (Some ch) =
           Returns (read_joystick_data ip (Some (holding (line @ [CHR 0x0A]))),
                    Some \<lparr>buffer = rest, reads = reads ch + 1\<rparr>))) \<and>
   (read_joystick_data_st ip (Some ch) = Returns (result, Some ch') \<longrightarrow>
      reads ch' \<le> reads ch + 1) \<and>
   (buffer ch \<noteq> [] \<and> CHR 0x0A \<notin> set (buffer ch) \<longrightarrow>
      read_joystick_data_st ip (Some ch) = Waits)"
proof (intro conjI impI)
  show "read_joystick_data_st ip None = Returns (None, None)"
    by (rule st_without_port)
next
  assume "bytes_available ch = 0"
  then show "read_joystick_data_st ip (Some ch) = Returns (None, Some ch)"
    by (rule st_without_data)
next
  assume "CHR 0x0A \<in> set (buffer ch)"
  then show "\<exists>line rest. CHR 0x0A \<notin> set line \<and> buffer ch = line @ [CHR 0x0A] @ rest \<and>
         read_joystick_data_st ip (Some ch) =
           Returns (read_joystick_data ip (Some (holding (line @ [CHR 0x0A]))),
                    Some \<lparr>buffer = rest, reads = reads ch + 1\<rparr>)"
    by (rule st_complete)
next
  assume "read_joystick_data_st ip (Some ch) = Returns (result, Some ch')"
  then show "reads ch' \<le> reads ch + 1"
    by (rule st_reads)
next
  assume "buffer ch \<noteq> [] \<and> CHR 0x0A \<notin> set (buffer ch)"
  then show "read_joystick_data_st ip (Some ch) = Waits"
    using st_partial [of ch ip] by blast
qed

theorem poll_channel_witness:
  "bytes_available \<lparr>buffer = [], reads = 3\<rparr> = 0 \<and>
   read_joystick_data_st cpython_3_11 (Some \<lparr>buffer = [], reads = 3\<rparr>)
     = Returns (None, Some \<lparr>buffer = [], reads = 3\<rparr>) \<and>
   CHR 0x0A \<in> set (buffer two_lines) \<and>
   read_joystick_data_st cpython_3_11 (Some two_lines)
     = Returns (Some (7, 8, True), Some \<lparr>buffer = ''1,2,1'' @ [CHR 0x0A], reads = 1\<rparr>) \<and>
   reads \<lparr>buffer = ''1,2,1'' @ [CHR 0x0A], reads = 1\<rparr> \<le> reads two_lines + 1 \<and>
   buffer \<lparr>buffer = ''7,8,0'', reads = 0\<rparr> \<noteq> [] \<and>
   CHR 0x0A \<notin> set (buffer \<lparr>buffer = ''7,8,0'', reads = 0\<rparr>) \<and>
   read_joystick_data_st cpython_3_11 (Some \<lparr>buffer = ''7,8,0'', reads = 0\<rparr>) = Waits"
proof -
  have e: "bytes_available \<lparr>buffer = [], reads = 3\<rparr> = 0"
    by (simp add: bytes_available_def)
  have a: "read_joystick_data_st cpython_3_11 (Some \<lparr>buffer = [], reads = 3\<rparr>)
     = Returns (None, Some \<lparr>buffer = [], reads = 3\<rparr>)"
    using poll_channel [where ch = "\<lparr>buffer = [], reads = 3\<rparr>" and ip = cpython_3_11] e
    by blast
  have m: "CHR 0x0A \<in> set (buffer two_lines)"
    by (simp add: two_lines_def)
  from poll_channel [where ch = two_lines and ip = cpython_3_11] m
  obtain line rest where l: "CHR 0x0A \<notin> set line"
    and b: "buffer two_lines = line @ [CHR 0x0A] @ rest"
    and r: "read_joystick_data_st cpython_3_11 (Some two_lines) =
           Returns (read_joystick_data cpython_3_11 (Some (holding (line @ [CHR 0x0A]))),
                    Some \<lparr>buffer = rest, reads = reads two_lines + 1\<rparr>)"
    by blast
  have "''7,8,0'' @ [CHR 0x0A] @ ''1,2,1'' @ [CHR 0x0A] = line @ [CHR 0x0A] @ rest"
    using b by (simp add: two_lines_def)
  then have "line = ''7,8,0'' \<and> rest = ''1,2,1'' @ [CHR 0x0A]"
    using l by (auto simp: append_eq_Cons_conv Cons_eq_append_conv)
  moreover have "read_joystick_data cpython_3_11 (Some (holding (''7,8,0'' @ [CHR 0x0A])))
      = Some (7, 8, True)"
    by (simp add: decoder_defs)
  ultimately have c: "read_joystick_data_st cpython_3_11 (Some two_lines)
     = Returns (Some (7, 8, True), Some \<lparr>buffer = ''1,2,1'' @ [CHR 0x0A], reads = 1\<rparr>)"
    using r by (simp add: two_lines_def)
  have n: "reads \<lparr>buffer = ''1,2,1'' @ [CHR 0x0A], reads = 1\<rparr> \<le> reads two_lines + 1"
    using poll_channel [where ch = two_lines and ip = cpython_3_11
        and result = "Some (7, 8, True)"
        and ch' = "\<lparr>buffer = ''1,2,1'' @ [CHR 0x0A], reads = 1\<rparr>"] c
    by blast
  have p: "buffer \<lparr>buffer = ''7,8,0'', reads = 0\<rparr> \<noteq> []"
    "CHR 0x0A \<notin> set (buffer \<lparr>buffer = ''7,8,0'', reads = 0\<rparr>)"
    by simp_all
  have w: "read_joystick_data_st cpython_3_11 (Some \<lparr>buffer = ''7,8,0'', reads = 0\<rparr>) = Waits"
    using poll_channel [where ch = "\<lparr>buffer = ''7,8,0'', reads = 0\<rparr>" and ip = cpython_3_11] p
    by blast
  from e a m c n p w show ?thesis
    by (intro conjI)
qed

text \<open>
  Claim C10 as stated fails: with the partial line \<^verbatim>\<open>7,8,0\<close> in the buffer, data is
  present, and the call waits for the line feed instead of returning.
\<close>

theorem poll_channel_counterexample:
  "bytes_available \<lparr>buffer = ''7,8,0'', reads = 0\<rparr> = 5 \<and>
   read_joystick_data_st cpython_3_11 (Some \<lparr>buffer = ''7,8,0'', reads = 0\<rparr>) = Waits \<and>
   read_joystick_data_st cpython_3_11 (Some \<lparr>buffer = ''7,8,0'', reads = 0\<rparr>)
     \<noteq> Returns (Some (7, 8, True), Some \<lparr>buffer = [], reads = 1\<rparr>)"
  by (simp add: read_joystick_data_st_def bytes_available_def read_line_def)

end
